theory Spec2Isabelle
  imports Complex_Main "HOL-Library.Sublist"
begin

section \<open>Data model\<close>

text \<open>
  The C++ type \<open>double\<close> is read as \<open>real\<close>: the development is about the
  algorithms of the crystallography code, not about rounding.  Every \<open>throw\<close> of
  the source is a value \<open>Inl e\<close> of the result type, every normal return a value
  \<open>Inr r\<close>.  \<open>LengthError\<close> is the \<open>std::length_error\<close> of a
  \<open>reserve\<close> beyond \<open>max_size()\<close>; \<open>OutOfRange\<close> stands for an
  unchecked \<open>operator[]\<close> outside a vector, which has no defined result.
\<close>

datatype error =
    RuntimeError string
  | LengthError
  | OutOfRange

subsection \<open>Vectors and matrices\<close>

text \<open>
  Modelled from the spec: the numeric primitives \<open>Vector3D\<close> and \<open>Matrix3D\<close>
  (3DCalculations.h) are an external library, "3x3 matrix/3-vector arithmetic,
  determinant, inversion, transpose".  A matrix is stored row by row.  The default
  \<open>Vector3D()\<close> is the zero vector, the default \<open>Matrix3D()\<close> the identity and
  \<open>Matrix3D( x )\<close> the diagonal matrix with \<open>x\<close> on the diagonal, as the source
  uses them (\<open>Matrix3D identity;\<close>, \<open>Matrix3D inversion( -1.0 )\<close>,
  \<open>Matrix3D sum( 0.0 )\<close>).
\<close>

datatype Vector3D = Vector3D (vx: real) (vy: real) (vz: real)

datatype Matrix3D = Matrix3D
  (m00: real) (m01: real) (m02: real)
  (m10: real) (m11: real) (m12: real)
  (m20: real) (m21: real) (m22: real)

instantiation Vector3D :: "{zero, plus, minus, uminus}"
begin

definition zero_Vector3D :: Vector3D where
  "zero_Vector3D = Vector3D 0 0 0"

definition plus_Vector3D :: "Vector3D \<Rightarrow> Vector3D \<Rightarrow> Vector3D" where
  "plus_Vector3D u v = Vector3D (vx u + vx v) (vy u + vy v) (vz u + vz v)"

definition minus_Vector3D :: "Vector3D \<Rightarrow> Vector3D \<Rightarrow> Vector3D" where
  "minus_Vector3D u v = Vector3D (vx u - vx v) (vy u - vy v) (vz u - vz v)"

definition uminus_Vector3D :: "Vector3D \<Rightarrow> Vector3D" where
  "uminus_Vector3D u = Vector3D (- vx u) (- vy u) (- vz u)"

instance ..

end

definition norm2 :: "Vector3D \<Rightarrow> real" where
  "norm2 v = vx v * vx v + vy v * vy v + vz v * vz v"

definition vector_length :: "Vector3D \<Rightarrow> real" where
  "vector_length v = sqrt (norm2 v)"

definition identity_matrix :: Matrix3D where
  "identity_matrix = Matrix3D 1 0 0 0 1 0 0 0 1"

definition diagonal_matrix :: "real \<Rightarrow> Matrix3D" where
  "diagonal_matrix x = Matrix3D x 0 0 0 x 0 0 0 x"

definition scalar_times :: "real \<Rightarrow> Matrix3D \<Rightarrow> Matrix3D" where
  "scalar_times s m = Matrix3D
     (s * m00 m) (s * m01 m) (s * m02 m)
     (s * m10 m) (s * m11 m) (s * m12 m)
     (s * m20 m) (s * m21 m) (s * m22 m)"

definition determinant :: "Matrix3D \<Rightarrow> real" where
  "determinant m =
     m00 m * (m11 m * m22 m - m12 m * m21 m)
   - m01 m * (m10 m * m22 m - m12 m * m20 m)
   + m02 m * (m10 m * m21 m - m11 m * m20 m)"

definition mat_vec :: "Matrix3D \<Rightarrow> Vector3D \<Rightarrow> Vector3D" where
  "mat_vec m v = Vector3D
     (m00 m * vx v + m01 m * vy v + m02 m * vz v)
     (m10 m * vx v + m11 m * vy v + m12 m * vz v)
     (m20 m * vx v + m21 m * vy v + m22 m * vz v)"

definition mat_mul :: "Matrix3D \<Rightarrow> Matrix3D \<Rightarrow> Matrix3D" where
  "mat_mul a b = Matrix3D
     (m00 a * m00 b + m01 a * m10 b + m02 a * m20 b)
     (m00 a * m01 b + m01 a * m11 b + m02 a * m21 b)
     (m00 a * m02 b + m01 a * m12 b + m02 a * m22 b)
     (m10 a * m00 b + m11 a * m10 b + m12 a * m20 b)
     (m10 a * m01 b + m11 a * m11 b + m12 a * m21 b)
     (m10 a * m02 b + m11 a * m12 b + m12 a * m22 b)
     (m20 a * m00 b + m21 a * m10 b + m22 a * m20 b)
     (m20 a * m01 b + m21 a * m11 b + m22 a * m21 b)
     (m20 a * m02 b + m21 a * m12 b + m22 a * m22 b)"

definition adjugate :: "Matrix3D \<Rightarrow> Matrix3D" where
  "adjugate m = Matrix3D
     (m11 m * m22 m - m12 m * m21 m) (m02 m * m21 m - m01 m * m22 m) (m01 m * m12 m - m02 m * m11 m)
     (m12 m * m20 m - m10 m * m22 m) (m00 m * m22 m - m02 m * m20 m) (m02 m * m10 m - m00 m * m12 m)
     (m10 m * m21 m - m11 m * m20 m) (m01 m * m20 m - m00 m * m21 m) (m00 m * m11 m - m01 m * m10 m)"

definition invert :: "Matrix3D \<Rightarrow> Matrix3D" where
  "invert m = scalar_times (1 / determinant m) (adjugate m)"

subsection \<open>Comparison within tolerance\<close>

text \<open>
  Modelled from the spec: \<open>nearly_equal\<close> (Utilities.h, 3DCalculations.h) is the
  "tolerance-comparison utility used pervasively for floating-point equality with a fixed
  epsilon"; on vectors, matrices and operators it "compares rotation and translation
  component-wise".  The value of the epsilon is not part of the files at hand: it is the
  parameter \<open>tol\<close> of every function that compares.
\<close>

definition nearly_equal :: "real \<Rightarrow> real \<Rightarrow> real \<Rightarrow> bool" where
  "nearly_equal tol lhs rhs = (\<bar>rhs - lhs\<bar> < tol)"

definition nearly_equal_vector :: "real \<Rightarrow> Vector3D \<Rightarrow> Vector3D \<Rightarrow> bool" where
  "nearly_equal_vector tol u v =
     (nearly_equal tol (vx u) (vx v) \<and> nearly_equal tol (vy u) (vy v) \<and> nearly_equal tol (vz u) (vz v))"

definition nearly_equal_matrix :: "real \<Rightarrow> Matrix3D \<Rightarrow> Matrix3D \<Rightarrow> bool" where
  "nearly_equal_matrix tol a b =
     (nearly_equal tol (m00 a) (m00 b) \<and> nearly_equal tol (m01 a) (m01 b) \<and> nearly_equal tol (m02 a) (m02 b) \<and>
      nearly_equal tol (m10 a) (m10 b) \<and> nearly_equal tol (m11 a) (m11 b) \<and> nearly_equal tol (m12 a) (m12 b) \<and>
      nearly_equal tol (m20 a) (m20 b) \<and> nearly_equal tol (m21 a) (m21 b) \<and> nearly_equal tol (m22 a) (m22 b))"

subsection \<open>Symmetry operators\<close>

text \<open>
  Modelled from the spec: the class \<open>SymmetryOperator\<close> is declared outside the files at
  hand.  "Composition a o b yields rotation = a.rotation x b.rotation, translation =
  a.rotation x b.translation + a.translation; inversion of an operator yields the
  algebraic inverse (rotation^-1, -rotation^-1 x translation)"; the default operator is the
  identity rotation with zero translation.
\<close>

record SymmetryOperator =
  rotation :: Matrix3D
  translation :: Vector3D

definition SymmetryOperator_default :: SymmetryOperator where
  "SymmetryOperator_default = \<lparr>rotation = identity_matrix, translation = 0\<rparr>"

definition op_times :: "SymmetryOperator \<Rightarrow> SymmetryOperator \<Rightarrow> SymmetryOperator" where
  "op_times a b =
     \<lparr>rotation = mat_mul (rotation a) (rotation b),
      translation = mat_vec (rotation a) (translation b) + translation a\<rparr>"

definition op_invert :: "SymmetryOperator \<Rightarrow> SymmetryOperator" where
  "op_invert a =
     \<lparr>rotation = invert (rotation a),
      translation = - mat_vec (invert (rotation a)) (translation a)\<rparr>"

definition nearly_equal_operator :: "real \<Rightarrow> SymmetryOperator \<Rightarrow> SymmetryOperator \<Rightarrow> bool" where
  "nearly_equal_operator tol a b =
     (nearly_equal_matrix tol (rotation a) (rotation b) \<and>
      nearly_equal_vector tol (translation a) (translation b))"

subsection \<open>Space groups, lattices, structures\<close>

record SpaceGroup =
  symmetry_operators :: "SymmetryOperator list"
  representative_symmetry_operators :: "SymmetryOperator list"
  centring_vectors :: "Vector3D list"
  has_inversion :: bool
  has_inversion_at_origin :: bool
  position_of_inversion :: Vector3D
  name :: string

text \<open>
  The lattice keeps the cell parameters, the three direct axes, the two transformation
  matrices and the volume.  An \<open>Angle\<close> is its value in radians.  The reciprocal axes
  and the lattice system, which the distance code never reads, are left out.
\<close>

record CrystalLattice =
  cell_a :: real
  cell_b :: real
  cell_c :: real
  cell_alpha :: real
  cell_beta :: real
  cell_gamma :: real
  a_vector :: Vector3D
  b_vector :: Vector3D
  c_vector :: Vector3D
  fractional_to_orthogonal_matrix :: Matrix3D
  orthogonal_to_fractional_matrix :: Matrix3D
  volume :: real

text \<open>An \<open>Element\<close> is its chemical symbol.\<close>

record Atom =
  element :: string
  position :: Vector3D
  label :: string

record CrystalStructure =
  atoms :: "Atom list"
  suppressed :: "bool list"
  crystal_lattice :: CrystalLattice
  space_group :: SpaceGroup
  space_group_symmetry_has_been_applied :: bool

section \<open>SpaceGroup\<close>

subsection \<open>check_if_closed\<close>

text \<open>
  The search loop with \<open>found\<close> and \<open>break\<close> that \<open>check_if_closed\<close> and
  \<open>remove_duplicate_symmetry_operators\<close> run over a list of operators.
\<close>

fun operator_found :: "real \<Rightarrow> SymmetryOperator \<Rightarrow> SymmetryOperator list \<Rightarrow> bool" where
  "operator_found tol r [] = False"
| "operator_found tol r (s # ss) =
     (if nearly_equal_operator tol r s then True else operator_found tol r ss)"

text \<open>The loop over \<open>j\<close> for one left factor, and the loop over \<open>i\<close>.\<close>

fun check_products :: "real \<Rightarrow> SymmetryOperator list \<Rightarrow> SymmetryOperator \<Rightarrow> SymmetryOperator list \<Rightarrow> error + unit" where
  "check_products tol ops si [] = Inr ()"
| "check_products tol ops si (sj # rest) =
     (if operator_found tol (op_times si sj) ops then check_products tol ops si rest
      else Inl (RuntimeError ''check_if_closed( std::vector< SymmetryOperator > ): operator not found.''))"

fun check_all_products :: "real \<Rightarrow> SymmetryOperator list \<Rightarrow> SymmetryOperator list \<Rightarrow> error + unit" where
  "check_all_products tol ops [] = Inr ()"
| "check_all_products tol ops (si # rest) =
     (case check_products tol ops si ops of
        Inl e \<Rightarrow> Inl e
      | Inr u \<Rightarrow> check_all_products tol ops rest)"

definition check_if_closed :: "real \<Rightarrow> SymmetryOperator list \<Rightarrow> error + unit" where
  "check_if_closed tol ops = check_all_products tol ops ops"

text \<open>
  Closure as the specification words it: every pairwise composition is equal, within the
  tolerance, to some operator of the list.
\<close>

definition closed_under_composition :: "real \<Rightarrow> SymmetryOperator list \<Rightarrow> bool" where
  "closed_under_composition tol ops =
     (\<forall>a \<in> set ops. \<forall>b \<in> set ops. \<exists>c \<in> set ops. nearly_equal_operator tol (op_times a b) c)"

subsection \<open>decompose\<close>

text \<open>
  First loop of \<open>decompose()\<close>: the state is the list of candidate centring vectors,
  the list of inversion translations and \<open>has_inversion_\<close>.  (The counters
  \<open>nproper\<close> and \<open>nimproper\<close> are written and never read.)  The message of the
  exception ends with the printed determinant, which is not modelled.
\<close>

fun classify_operators ::
  "real \<Rightarrow> SymmetryOperator list \<Rightarrow> Vector3D list \<times> Vector3D list \<times> bool
     \<Rightarrow> error + (Vector3D list \<times> Vector3D list \<times> bool)" where
  "classify_operators tol [] acc = Inr acc"
| "classify_operators tol (s # ss) (cvs, itvs, has_inv) =
     (if nearly_equal tol (determinant (rotation s)) 1 then
        classify_operators tol ss
          (if nearly_equal_matrix tol (rotation s) identity_matrix
           then (cvs @ [translation s], itvs, has_inv) else (cvs, itvs, has_inv))
      else if nearly_equal tol (determinant (rotation s)) (- 1) then
        classify_operators tol ss
          (if nearly_equal_matrix tol (rotation s) (diagonal_matrix (- 1))
           then (cvs, itvs @ [translation s], True) else (cvs, itvs, has_inv))
      else Inl (RuntimeError ''SpaceGroup::decompose(): unexpected determinant = ''))"

text \<open>Second loop: drop the zero vector and record that it was seen.\<close>

fun remove_zero_vector :: "real \<Rightarrow> Vector3D list \<Rightarrow> bool \<times> Vector3D list \<Rightarrow> bool \<times> Vector3D list" where
  "remove_zero_vector tol [] acc = acc"
| "remove_zero_vector tol (v # vs) (identity_found, cvs) =
     remove_zero_vector tol vs
       (if nearly_equal_vector tol v 0 then (True, cvs) else (identity_found, cvs @ [v]))"

text \<open>Third loop: the inversion translation with the smallest coordinate sum.\<close>

fun nearest_inversion :: "Vector3D list \<Rightarrow> real \<times> Vector3D \<Rightarrow> real \<times> Vector3D" where
  "nearest_inversion [] acc = acc"
| "nearest_inversion (v # vs) (smallest_value, pos) =
     nearest_inversion vs
       (if vx v + vy v + vz v < smallest_value then (vx v + vy v + vz v, v) else (smallest_value, pos))"

text \<open>Fourth loop: the inner search over the representatives so far, then the scan.\<close>

fun representative_found :: "real \<Rightarrow> Matrix3D \<Rightarrow> SymmetryOperator list \<Rightarrow> bool" where
  "representative_found tol m [] = False"
| "representative_found tol m (r # rs) =
     (if nearly_equal_matrix tol m (rotation r) then True
      else if nearly_equal_matrix tol m (scalar_times (- 1) (rotation r)) then True
      else representative_found tol m rs)"

fun representatives :: "real \<Rightarrow> SymmetryOperator list \<Rightarrow> SymmetryOperator list \<Rightarrow> SymmetryOperator list" where
  "representatives tol [] reps = reps"
| "representatives tol (s # ss) reps =
     representatives tol ss
       (if representative_found tol (rotation s) reps then reps else reps @ [s])"

text \<open>
  \<open>centring_vectors_.reserve( centring_vectors.size() - 1 )\<close> is computed in
  \<open>size_t\<close>: with no candidate the argument wraps to the largest \<open>size_t\<close> and
  \<open>reserve\<close> throws.
\<close>

definition decompose :: "real \<Rightarrow> SpaceGroup \<Rightarrow> error + SpaceGroup" where
  "decompose tol sg =
     (case classify_operators tol (symmetry_operators sg) ([], [], False) of
        Inl e \<Rightarrow> Inl e
      | Inr (cvs, itvs, has_inv) \<Rightarrow>
          if cvs = [] then Inl LengthError
          else
            (case remove_zero_vector tol cvs (False, []) of
               (identity_found, cvs') \<Rightarrow>
                 if \<not> identity_found
                 then Inl (RuntimeError ''SpaceGroup::decompose(): identity not found.'')
                 else
                   (case (if has_inv then nearest_inversion itvs (4, position_of_inversion sg)
                          else (4, position_of_inversion sg)) of
                      (smallest_value, pos) \<Rightarrow>
                        Inr (sg\<lparr>representative_symmetry_operators :=
                                   representatives tol (symmetry_operators sg) [],
                                 centring_vectors := cvs',
                                 has_inversion := has_inv,
                                 has_inversion_at_origin :=
                                   (has_inv \<and> nearly_equal tol smallest_value 0),
                                 position_of_inversion := pos\<rparr>))))"

text \<open>
  The comparison that the inner search makes between two operators: the rotations are
  equal within the tolerance, or one is equal within the tolerance to the negation of the
  other.
\<close>

definition same_rotation_up_to_sign :: "real \<Rightarrow> SymmetryOperator \<Rightarrow> SymmetryOperator \<Rightarrow> bool" where
  "same_rotation_up_to_sign tol a b =
     (nearly_equal_matrix tol (rotation a) (rotation b) \<or>
      nearly_equal_matrix tol (rotation a) (scalar_times (- 1) (rotation b)))"

text \<open>The comparison up to sign is transitive on the operators of a list.\<close>

definition up_to_sign_transitive :: "real \<Rightarrow> SymmetryOperator list \<Rightarrow> bool" where
  "up_to_sign_transitive tol ops =
     (\<forall>a \<in> set ops. \<forall>b \<in> set ops. \<forall>c \<in> set ops.
        same_rotation_up_to_sign tol a b \<longrightarrow> same_rotation_up_to_sign tol b c \<longrightarrow>
        same_rotation_up_to_sign tol a c)"

subsection \<open>Constructors\<close>

definition is_identity :: "real \<Rightarrow> SymmetryOperator \<Rightarrow> bool" where
  "is_identity tol s =
     (nearly_equal_matrix tol (rotation s) identity_matrix \<and>
      nearly_equal_vector tol (translation s) 0)"

text \<open>The object before the constructor body has run.\<close>

definition SpaceGroup_blank :: SpaceGroup where
  "SpaceGroup_blank =
     \<lparr>symmetry_operators = [], representative_symmetry_operators = [], centring_vectors = [],
      has_inversion = False, has_inversion_at_origin = False, position_of_inversion = 0,
      name = []\<rparr>"

definition SpaceGroup_default :: "real \<Rightarrow> error + SpaceGroup" where
  "SpaceGroup_default tol =
     (case decompose tol (SpaceGroup_blank\<lparr>symmetry_operators := [SymmetryOperator_default]\<rparr>) of
        Inl e \<Rightarrow> Inl e
      | Inr sg \<Rightarrow> Inr (sg\<lparr>name := ''P1''\<rparr>))"

text \<open>
  The loop \<open>for ( size_t i( 1 ); i != symmetry_operators_.size(); ++i )\<close> that swaps
  the first identity found from index 1 on to the front; \<open>i\<close> is the index of the head
  of the remaining list.
\<close>

fun swap_identity_to_front :: "real \<Rightarrow> SymmetryOperator list \<Rightarrow> SymmetryOperator list \<Rightarrow> nat \<Rightarrow> SymmetryOperator list" where
  "swap_identity_to_front tol ops [] i = ops"
| "swap_identity_to_front tol ops (s # ss) i =
     (if is_identity tol s then ops[0 := ops ! i, i := ops ! 0]
      else swap_identity_to_front tol ops ss (Suc i))"

text \<open>
  The constructor from an operator list.  On the empty list \<open>check_if_closed\<close> has
  nothing to check and the constructor goes on to read \<open>symmetry_operators_[0]\<close> of
  an empty vector: that read is the result \<open>OutOfRange\<close>.
\<close>

definition SpaceGroup_ctor :: "real \<Rightarrow> SymmetryOperator list \<Rightarrow> string \<Rightarrow> error + SpaceGroup" where
  "SpaceGroup_ctor tol ops nm =
     (case check_if_closed tol ops of
        Inl e \<Rightarrow> Inl e
      | Inr u \<Rightarrow>
          (case ops of
             [] \<Rightarrow> Inl OutOfRange
           | s0 # rest \<Rightarrow>
               (case decompose tol (SpaceGroup_blank\<lparr>symmetry_operators :=
                        (if \<not> is_identity tol s0 then swap_identity_to_front tol ops rest 1 else ops)\<rparr>) of
                  Inl e \<Rightarrow> Inl e
                | Inr sg \<Rightarrow> Inr (sg\<lparr>name := nm\<rparr>))))"

subsection \<open>Mutating operations\<close>

definition add_inversion_at_origin :: "real \<Rightarrow> SpaceGroup \<Rightarrow> error + SpaceGroup" where
  "add_inversion_at_origin tol sg =
     (if has_inversion_at_origin sg then Inr sg
      else decompose tol
        (sg\<lparr>symmetry_operators :=
              concat (map (\<lambda>s. [s, op_times \<lparr>rotation = diagonal_matrix (- 1), translation = 0\<rparr> s])
                          (symmetry_operators sg))\<rparr>))"

definition apply_similarity_transformation :: "real \<Rightarrow> SymmetryOperator \<Rightarrow> SpaceGroup \<Rightarrow> error + SpaceGroup" where
  "apply_similarity_transformation tol symmetry_operator sg =
     decompose tol
       (sg\<lparr>symmetry_operators :=
             map (\<lambda>s. op_times (op_times symmetry_operator s) (op_invert symmetry_operator))
                 (symmetry_operators sg)\<rparr>)"

fun remove_duplicates_loop :: "real \<Rightarrow> SymmetryOperator list \<Rightarrow> SymmetryOperator list \<Rightarrow> SymmetryOperator list" where
  "remove_duplicates_loop tol [] new_symmetry_operators = new_symmetry_operators"
| "remove_duplicates_loop tol (s # ss) new_symmetry_operators =
     remove_duplicates_loop tol ss
       (if operator_found tol s new_symmetry_operators then new_symmetry_operators
        else new_symmetry_operators @ [s])"

definition remove_duplicate_symmetry_operators :: "real \<Rightarrow> SpaceGroup \<Rightarrow> error + SpaceGroup" where
  "remove_duplicate_symmetry_operators tol sg =
     (case symmetry_operators sg of
        [] \<Rightarrow> Inl OutOfRange
      | s0 # rest \<Rightarrow>
          decompose tol (sg\<lparr>symmetry_operators := remove_duplicates_loop tol rest [s0]\<rparr>))"

subsection \<open>crystal_system\<close>

text \<open>
  The loop of \<open>crystal_system()\<close> over the representative operators, with the four
  counters as the loop state.  \<open>rotation_part_type()\<close> is a method of
  \<open>SymmetryOperator\<close> that is declared outside the files at hand; it is the
  parameter \<open>rpt\<close>.
\<close>

fun crystal_system_tally ::
  "(SymmetryOperator \<Rightarrow> int) \<Rightarrow> SymmetryOperator list \<Rightarrow> nat \<times> nat \<times> nat \<times> nat
     \<Rightarrow> nat \<times> nat \<times> nat \<times> nat" where
  "crystal_system_tally rpt [] s = s"
| "crystal_system_tally rpt (r # rs) (sum_2, sum_3, sum_4, sum_6) =
     crystal_system_tally rpt rs
       (if \<bar>rpt r\<bar> = 2 then (sum_2 + 1, sum_3, sum_4, sum_6)
        else if \<bar>rpt r\<bar> = 3 then (sum_2, sum_3 + 1, sum_4, sum_6)
        else if \<bar>rpt r\<bar> = 4 then (sum_2, sum_3, sum_4 + 1, sum_6)
        else if \<bar>rpt r\<bar> = 6 then (sum_2, sum_3, sum_4, sum_6 + 1)
        else (sum_2, sum_3, sum_4, sum_6))"

definition crystal_system :: "(SymmetryOperator \<Rightarrow> int) \<Rightarrow> SpaceGroup \<Rightarrow> error + string" where
  "crystal_system rpt sg =
     (if length (representative_symmetry_operators sg) = 1 then Inr ''triclinic''
      else
        (case crystal_system_tally rpt (representative_symmetry_operators sg) (0, 0, 0, 0) of
           (sum_2, sum_3, sum_4, sum_6) \<Rightarrow>
             if sum_3 = 8 then Inr ''cubic''
             else if sum_6 = 2 then Inr ''hexagonal''
             else if sum_3 = 2 then Inr ''trigonal''
             else if sum_4 = 2 then Inr ''tetragonal''
             else if sum_2 = 3 then Inr ''orthorhombic''
             else if sum_2 = 1 then Inr ''monoclinic''
             else Inl (RuntimeError ''SpaceGroup::crystal_system(): we should never be here.'')))"

text \<open>The number of representatives whose rotation order, sign dropped, is \<open>k\<close>.\<close>

definition order_count :: "(SymmetryOperator \<Rightarrow> int) \<Rightarrow> int \<Rightarrow> SymmetryOperator list \<Rightarrow> nat" where
  "order_count rpt k rs = length (filter (\<lambda>r. \<bar>rpt r\<bar> = k) rs)"

section \<open>CrystalLattice\<close>

subsection \<open>Construction\<close>

text \<open>
  The six-parameter constructor, up to the two transformation matrices and the volume.
  \<open>Matrix3D::invert()\<close> is modelled by \<open>invert\<close>.  The constructor has no
  \<open>throw\<close> of its own, and the functions it calls from outside the files at hand
  (\<open>sqrt\<close>, \<open>arccosine\<close>, \<open>deduce_lattice_system\<close>) are taken to return: it is
  a total function.
\<close>

definition CrystalLattice_ctor :: "real \<Rightarrow> real \<Rightarrow> real \<Rightarrow> real \<Rightarrow> real \<Rightarrow> real \<Rightarrow> CrystalLattice" where
  "CrystalLattice_ctor a b c alpha beta gamma =
     (let av = Vector3D a 0 0;
          bv = Vector3D (b * cos gamma) (b * sin gamma) 0;
          x = c * cos beta;
          y = (b * c * cos alpha - vx bv * x) / vy bv;
          z = sqrt (c * c - x * x - y * y);
          cv = Vector3D x y z;
          f2o = Matrix3D (vx av) (vx bv) (vx cv)
                         (vy av) (vy bv) (vy cv)
                         (vz av) (vz bv) (vz cv)
      in \<lparr>cell_a = a, cell_b = b, cell_c = c,
          cell_alpha = alpha, cell_beta = beta, cell_gamma = gamma,
          a_vector = av, b_vector = bv, c_vector = cv,
          fractional_to_orthogonal_matrix = f2o,
          orthogonal_to_fractional_matrix = invert f2o,
          volume = determinant f2o\<rparr>)"

definition CrystalLattice_default :: CrystalLattice where
  "CrystalLattice_default = CrystalLattice_ctor 10 10 10 (pi / 2) (pi / 2) (pi / 2)"

definition fractional_to_orthogonal :: "CrystalLattice \<Rightarrow> Vector3D \<Rightarrow> Vector3D" where
  "fractional_to_orthogonal L v = mat_vec (fractional_to_orthogonal_matrix L) v"

definition orthogonal_to_fractional :: "CrystalLattice \<Rightarrow> Vector3D \<Rightarrow> Vector3D" where
  "orthogonal_to_fractional L v = mat_vec (orthogonal_to_fractional_matrix L) v"

subsection \<open>shortest_distance2 and shortest_distance\<close>

text \<open>
  Modelled from the spec: \<open>adjust_for_translations\<close> (3DCalculations.h) is not part of
  the files at hand.  Translations are "reduced to [0,1) per axis", and the comment in
  \<open>shortest_distance2\<close> expects a reduced coordinate "like 0.95, which clearly should
  have been 0.05": each coordinate is replaced by its fractional part.  The distance
  functions below take the reduction as the parameter \<open>adj\<close>, so that what is proved
  for every \<open>adj\<close> does not rest on this reading.
\<close>

definition adjust_for_translations :: "Vector3D \<Rightarrow> Vector3D" where
  "adjust_for_translations v = Vector3D (frac (vx v)) (frac (vy v)) (frac (vz v))"

text \<open>
  Modelled from the spec: the other reading of the reduction, "reduce the fractional
  difference vector to its nearest-integer class", which takes each coordinate to the
  interval from -1/2 to 1/2.  The concrete runs below are made under both readings.
\<close>

definition nearest_integer_reduction :: "Vector3D \<Rightarrow> Vector3D" where
  "nearest_integer_reduction v =
     Vector3D (vx v - of_int (round (vx v))) (vy v - of_int (round (vy v))) (vz v - of_int (round (vz v)))"

text \<open>\<open>Vector3D( i, j, k )\<close> with \<open>int\<close> arguments.\<close>

definition int_vector :: "int \<times> int \<times> int \<Rightarrow> Vector3D" where
  "int_vector t = (case t of (i, j, k) \<Rightarrow> Vector3D (of_int i) (of_int j) (of_int k))"

text \<open>
  The three nested \<open>for\<close> loops visit the 27 offsets in this order (the offset
  \<open>(0, 0, 0)\<close> is among them and never improves the distance).
\<close>

definition neighbour_offsets :: "(int \<times> int \<times> int) list" where
  "neighbour_offsets = [(i, j, k). i \<leftarrow> [- 1, 0, 1], j \<leftarrow> [- 1, 0, 1], k \<leftarrow> [- 1, 0, 1]]"

text \<open>
  The body of the innermost loop.  The state is \<open>difference_vector\<close>,
  \<open>shortest_distance2\<close> and \<open>shortest_distance_changed\<close>; an accepted offset
  replaces the difference vector at once, so the offsets that follow in the same pass are
  taken from the new vector.
\<close>

fun scan_step :: "CrystalLattice \<Rightarrow> Vector3D \<times> real \<times> bool \<Rightarrow> int \<times> int \<times> int \<Rightarrow> Vector3D \<times> real \<times> bool" where
  "scan_step L (difference_vector, shortest_distance2, shortest_distance_changed) t =
     (let new_difference_vector = difference_vector + int_vector t;
          distance2 = norm2 (fractional_to_orthogonal L new_difference_vector)
      in if distance2 < shortest_distance2
         then (new_difference_vector, distance2, True)
         else (difference_vector, shortest_distance2, shortest_distance_changed))"

text \<open>One pass of the \<open>do\<close> body, and the \<open>do ... while\<close> loop.\<close>

definition scan :: "CrystalLattice \<Rightarrow> Vector3D \<Rightarrow> real \<Rightarrow> Vector3D \<times> real \<times> bool" where
  "scan L difference_vector shortest_distance2 =
     foldl (scan_step L) (difference_vector, shortest_distance2, False) neighbour_offsets"

partial_function (option) descend :: "CrystalLattice \<Rightarrow> Vector3D \<Rightarrow> real \<Rightarrow> (Vector3D \<times> real) option" where
  "descend L difference_vector shortest_distance2 =
     (case scan L difference_vector shortest_distance2 of
        (d, s, shortest_distance_changed) \<Rightarrow>
          if shortest_distance_changed then descend L d s else Some (d, s))"

text \<open>
  \<open>None\<close> is a loop that never ends.  The two functions of the source that contain the
  loop: \<open>shortest_distance2\<close>, and the overload of \<open>shortest_distance\<close> with the two
  output parameters, here \<open>shortest_distance_out\<close>, which returns the pair
  \<open>(output_distance, output_difference_vector)\<close>.
\<close>

definition shortest_distance2 :: "(Vector3D \<Rightarrow> Vector3D) \<Rightarrow> CrystalLattice \<Rightarrow> Vector3D \<Rightarrow> Vector3D \<Rightarrow> real option" where
  "shortest_distance2 adj L lhs rhs =
     (let difference_vector = adj (rhs - lhs)
      in map_option snd
           (descend L difference_vector (norm2 (fractional_to_orthogonal L difference_vector))))"

definition shortest_distance :: "(Vector3D \<Rightarrow> Vector3D) \<Rightarrow> CrystalLattice \<Rightarrow> Vector3D \<Rightarrow> Vector3D \<Rightarrow> real option" where
  "shortest_distance adj L lhs rhs = map_option sqrt (shortest_distance2 adj L lhs rhs)"

definition shortest_distance_out :: "(Vector3D \<Rightarrow> Vector3D) \<Rightarrow> CrystalLattice \<Rightarrow> Vector3D \<Rightarrow> Vector3D \<Rightarrow> (real \<times> Vector3D) option" where
  "shortest_distance_out adj L lhs rhs =
     (let difference_vector = adj (rhs - lhs)
      in map_option (\<lambda>(d, s). (sqrt s, d))
           (descend L difference_vector (norm2 (fractional_to_orthogonal L difference_vector))))"

text \<open>
  The squared minimum-image distance as the specification words it: a value is the
  minimum when it is attained by some lattice translate of the difference and no translate
  is closer.
\<close>

definition is_minimum_image_distance2 :: "CrystalLattice \<Rightarrow> Vector3D \<Rightarrow> Vector3D \<Rightarrow> real \<Rightarrow> bool" where
  "is_minimum_image_distance2 L lhs rhs v =
     ((\<exists>t. v = norm2 (fractional_to_orthogonal L (rhs - lhs + int_vector t))) \<and>
      (\<forall>t. v \<le> norm2 (fractional_to_orthogonal L (rhs - lhs + int_vector t))))"

subsection \<open>Notions used in the proofs about the loop\<close>

definition int_add :: "int \<times> int \<times> int \<Rightarrow> int \<times> int \<times> int \<Rightarrow> int \<times> int \<times> int" where
  "int_add s t = (case s of (i, j, k) \<Rightarrow> case t of (i', j', k') \<Rightarrow> (i + i', j + j', k + k'))"

text \<open>
  What a pass keeps true of its state, started from \<open>d0\<close>: the difference vector is a
  lattice translate of \<open>d0\<close>, the stored value is its squared length, the value has not
  grown, a set flag means that the value is strictly smaller, and a flag that is not set
  means that the vector has not moved.
\<close>

definition scan_inv :: "CrystalLattice \<Rightarrow> Vector3D \<Rightarrow> Vector3D \<times> real \<times> bool \<Rightarrow> bool" where
  "scan_inv L d0 st = (case st of (d, s, changed) \<Rightarrow>
     (\<exists>u. d = d0 + int_vector u) \<and> s = norm2 (fractional_to_orthogonal L d) \<and>
     s \<le> norm2 (fractional_to_orthogonal L d0) \<and>
     (changed \<longrightarrow> s < norm2 (fractional_to_orthogonal L d0)) \<and>
     (\<not> changed \<longrightarrow> d = d0))"

text \<open>The lattice translates of \<open>d\<close> that are strictly shorter than \<open>d\<close>.\<close>

definition closer :: "CrystalLattice \<Rightarrow> Vector3D \<Rightarrow> (int \<times> int \<times> int) set" where
  "closer L d = {t. norm2 (fractional_to_orthogonal L (d + int_vector t))
                     < norm2 (fractional_to_orthogonal L d)}"

text \<open>The sum of the absolute values of the cofactors, used to bound preimages.\<close>

definition adjugate_size :: "Matrix3D \<Rightarrow> real" where
  "adjugate_size m = (let a = adjugate m in
     \<bar>m00 a\<bar> + \<bar>m01 a\<bar> + \<bar>m02 a\<bar> + \<bar>m10 a\<bar> + \<bar>m11 a\<bar> + \<bar>m12 a\<bar> + \<bar>m20 a\<bar> + \<bar>m21 a\<bar> + \<bar>m22 a\<bar>)"

section \<open>CrystalStructure\<close>

subsection \<open>atom\<close>

text \<open>
  \<open>Atom CrystalStructure::atom( const size_t i ) const\<close>: the index is a
  \<open>size_t\<close>, so it is a natural number.
\<close>

definition atom :: "CrystalStructure \<Rightarrow> nat \<Rightarrow> error + Atom" where
  "atom cs i =
     (if i \<ge> length (atoms cs)
      then Inl (RuntimeError ''CrystalStructure::atom( size_t ): i >= atoms_.size()'')
      else Inr (atoms cs ! i))"

subsection \<open>Comparison of two structures\<close>

text \<open>
  The loop of \<open>root_mean_square_Cartesian_displacement\<close> over the atom index; both
  structures have the same number of atoms when it runs, so it walks the two atom lists
  side by side.  The state is \<open>result\<close> and \<open>nnon_H_atoms\<close>; the occupancy is the
  constant 1.
\<close>

fun rmscd_loop :: "CrystalLattice \<Rightarrow> CrystalLattice \<Rightarrow> (Atom \<times> Atom) list \<Rightarrow> real \<times> real \<Rightarrow> error + (real \<times> real)" where
  "rmscd_loop ll rl [] acc = Inr acc"
| "rmscd_loop ll rl ((la, ra) # rest) (result, nnon_H_atoms) =
     (if (element la = ''H'' \<or> element la = ''D'') \<and> (element ra = ''H'' \<or> element ra = ''D'')
      then rmscd_loop ll rl rest (result, nnon_H_atoms)
      else if element la \<noteq> element ra
      then Inl (RuntimeError ''root_mean_square_Cartesian_displacement(): elements are not the same.'')
      else
        (let displacement =
               (vector_length (fractional_to_orthogonal ll (position la) - fractional_to_orthogonal ll (position ra)) +
                vector_length (fractional_to_orthogonal rl (position la) - fractional_to_orthogonal rl (position ra))) / 2
         in rmscd_loop ll rl rest (result + 1 * (displacement * displacement), nnon_H_atoms + 1)))"

definition root_mean_square_Cartesian_displacement :: "real \<Rightarrow> CrystalStructure \<Rightarrow> CrystalStructure \<Rightarrow> error + real" where
  "root_mean_square_Cartesian_displacement tol lhs rhs =
     (if length (atoms lhs) \<noteq> length (atoms rhs)
      then Inl (RuntimeError ''root_mean_square_Cartesian_displacement(): number of atoms is not the same.'')
      else
        (case rmscd_loop (crystal_lattice lhs) (crystal_lattice rhs) (zip (atoms lhs) (atoms rhs)) (0, 0) of
           Inl e \<Rightarrow> Inl e
         | Inr (result, nnon_H_atoms) \<Rightarrow>
             if nearly_equal tol nnon_H_atoms 0 then Inr 0
             else Inr (sqrt (result / nnon_H_atoms))))"

text \<open>
  The lattice that \<open>RMSCD_with_matching\<close> and \<open>find_match\<close> build from the two
  structures.  The warnings they print about cell parameters that differ change no value
  and are not modelled.
\<close>

definition average_lattice :: "CrystalLattice \<Rightarrow> CrystalLattice \<Rightarrow> CrystalLattice" where
  "average_lattice lhs_lattice rhs_lattice =
     CrystalLattice_ctor
       ((cell_a lhs_lattice + cell_a rhs_lattice) / 2)
       ((cell_b lhs_lattice + cell_b rhs_lattice) / 2)
       ((cell_c lhs_lattice + cell_c rhs_lattice) / 2)
       ((cell_alpha lhs_lattice + cell_alpha rhs_lattice) / 2)
       ((cell_beta lhs_lattice + cell_beta rhs_lattice) / 2)
       ((cell_gamma lhs_lattice + cell_gamma rhs_lattice) / 2)"

text \<open>
  \<open>RMSCD_with_matching\<close> and \<open>find_match\<close> open with their checks on the atom counts;
  the search for the best match that follows them (it prints, writes a file and calls
  \<open>Element\<close> and \<open>SymmetryOperator\<close> methods from outside the files at hand) is
  the parameter \<open>matching\<close>, which receives everything the search reads.  What is
  proved below holds for every such search.  \<open>find_match\<close> returns the operator
  together with the final contents of its output parameter \<open>integer_shifts\<close>; the
  search clears that vector before it fills it, so it does not read the caller's contents.
\<close>

definition RMSCD_with_matching ::
  "(CrystalStructure \<Rightarrow> CrystalStructure \<Rightarrow> CrystalLattice \<Rightarrow> bool \<Rightarrow> error + real)
     \<Rightarrow> CrystalStructure \<Rightarrow> CrystalStructure \<Rightarrow> bool \<Rightarrow> error + real" where
  "RMSCD_with_matching matching lhs rhs add_shifts =
     (let natoms = length (atoms rhs) in
      if natoms \<noteq> length (atoms lhs)
      then Inl (RuntimeError ''RMSCD_with_matching(): numbers of atoms are not the same.'')
      else if natoms = 0 then Inr 0
      else matching lhs rhs (average_lattice (crystal_lattice lhs) (crystal_lattice rhs)) add_shifts)"

definition find_match ::
  "(CrystalStructure \<Rightarrow> CrystalStructure \<Rightarrow> CrystalLattice \<Rightarrow> nat \<Rightarrow> bool \<Rightarrow> bool
       \<Rightarrow> error + SymmetryOperator \<times> int list)
     \<Rightarrow> CrystalStructure \<Rightarrow> CrystalStructure \<Rightarrow> nat \<Rightarrow> int list \<Rightarrow> bool \<Rightarrow> bool
     \<Rightarrow> error + SymmetryOperator \<times> int list" where
  "find_match matching lhs rhs shift_steps integer_shifts add_inversion correct_floating_axes =
     (let natoms = length (atoms rhs) in
      if natoms \<noteq> length (atoms lhs)
      then Inl (RuntimeError ''find_match(): numbers of atoms are not the same.'')
      else
        (let average = average_lattice (crystal_lattice lhs) (crystal_lattice rhs) in
         if natoms = 0 then Inr (SymmetryOperator_default, integer_shifts)
         else matching lhs rhs average shift_steps add_inversion correct_floating_axes))"

section \<open>Concrete inputs\<close>

text \<open>
  The space group P1 as the default constructor leaves it, a structure with given atoms in
  the default cell, and a cell with an acute angle: a = 8, b = 4, c = 10,
  alpha = beta = 90 degrees, cos gamma = 4/5 (gamma is about 36.87 degrees).
\<close>

definition P1 :: SpaceGroup where
  "P1 = \<lparr>symmetry_operators = [SymmetryOperator_default],
         representative_symmetry_operators = [SymmetryOperator_default],
         centring_vectors = [], has_inversion = False, has_inversion_at_origin = False,
         position_of_inversion = 0, name = ''P1''\<rparr>"

definition structure_with :: "Atom list \<Rightarrow> CrystalStructure" where
  "structure_with as =
     \<lparr>atoms = as, suppressed = map (\<lambda>a. False) as, crystal_lattice = CrystalLattice_default,
      space_group = P1, space_group_symmetry_has_been_applied = False\<rparr>"

definition carbon :: Atom where
  "carbon = \<lparr>element = ''C'', position = Vector3D 0 0 0, label = ''C1''\<rparr>"

definition acute_cell :: CrystalLattice where
  "acute_cell = CrystalLattice_ctor 8 4 10 (pi / 2) (pi / 2) (arccos (4 / 5))"

text \<open>
  Operators for the concrete runs: the inversion at the origin, an operator whose rotation
  differs from the identity by \<open>e\<close> in one off-diagonal entry, and the change of basis
  \<open>a' = a, b' = 2a + b, c' = c\<close>, an integer matrix of determinant 1.
\<close>

definition inversion_at_origin :: SymmetryOperator where
  "inversion_at_origin = \<lparr>rotation = diagonal_matrix (- 1), translation = 0\<rparr>"

definition off_identity :: "real \<Rightarrow> SymmetryOperator" where
  "off_identity e = \<lparr>rotation = Matrix3D 1 e 0 0 1 0 0 0 1, translation = 0\<rparr>"

definition shear :: SymmetryOperator where
  "shear = \<lparr>rotation = Matrix3D 1 0 0 2 1 0 0 0 1, translation = 0\<rparr>"

definition half_shift :: SymmetryOperator where
  "half_shift = \<lparr>rotation = identity_matrix, translation = Vector3D (1 / 2) 0 0\<rparr>"

text \<open>The group of the identity and the inversion at the origin, as the constructor builds it.\<close>

definition Pbar1 :: SpaceGroup where
  "Pbar1 = \<lparr>symmetry_operators = [SymmetryOperator_default, inversion_at_origin],
            representative_symmetry_operators = [SymmetryOperator_default],
            centring_vectors = [], has_inversion = True, has_inversion_at_origin = True,
            position_of_inversion = 0, name = ''P-1''\<rparr>"

text \<open>
  Three operators whose rotations lie within 3/2000 of each other: the identity, one that
  is off by 3/4000 and one that is off by 3/2000.
\<close>

definition noisy_group :: SpaceGroup where
  "noisy_group = SpaceGroup_blank
     \<lparr>symmetry_operators := [SymmetryOperator_default, off_identity (3 / 4000), off_identity (3 / 2000)]\<rparr>"

section \<open>Results on CrystalStructure::atom\<close>

text \<open>
  C9: \<open>atom(i)\<close> is total at the public interface: an index at or beyond the number
  of atoms gives an error, an index below it gives the stored atom at that index.
\<close>

theorem atom_total:
  "(length (atoms cs) \<le> i \<longrightarrow> (\<exists>e. atom cs i = Inl e)) \<and>
   (i < length (atoms cs) \<longrightarrow> atom cs i = Inr (atoms cs ! i))"
  by (simp add: atom_def)

theorem atom_total_witness:
  "(\<exists>e. atom (structure_with [carbon]) 1 = Inl e) \<and>
   atom (structure_with [carbon]) 0 = Inr carbon"
  using atom_total [of "structure_with [carbon]" 1] atom_total [of "structure_with [carbon]" 0]
  by (simp add: structure_with_def)

section \<open>Results on SpaceGroup::crystal_system\<close>

lemma crystal_system_tally_counts:
  "crystal_system_tally rpt rs (a, b, c, d) =
     (a + order_count rpt 2 rs, b + order_count rpt 3 rs,
      c + order_count rpt 4 rs, d + order_count rpt 6 rs)"
  by (induction rs arbitrary: a b c d) (simp_all add: order_count_def)

text \<open>
  C5: \<open>crystal_system()\<close> answers "triclinic" exactly when there is one
  representative operator; otherwise the counts of the representatives of order 2, 3, 4
  and 6 (sign dropped) decide, in the order cubic, hexagonal, trigonal, tetragonal,
  orthorhombic, monoclinic, and an error is raised when no condition holds.
\<close>

theorem crystal_system_classification:
  "(crystal_system rpt sg = Inr ''triclinic'' \<longleftrightarrow> length (representative_symmetry_operators sg) = 1) \<and>
   (length (representative_symmetry_operators sg) \<noteq> 1 \<longrightarrow>
      crystal_system rpt sg =
       (if order_count rpt 3 (representative_symmetry_operators sg) = 8 then Inr ''cubic''
        else if order_count rpt 6 (representative_symmetry_operators sg) = 2 then Inr ''hexagonal''
        else if order_count rpt 3 (representative_symmetry_operators sg) = 2 then Inr ''trigonal''
        else if order_count rpt 4 (representative_symmetry_operators sg) = 2 then Inr ''tetragonal''
        else if order_count rpt 2 (representative_symmetry_operators sg) = 3 then Inr ''orthorhombic''
        else if order_count rpt 2 (representative_symmetry_operators sg) = 1 then Inr ''monoclinic''
        else Inl (RuntimeError ''SpaceGroup::crystal_system(): we should never be here.'')))"
  by (simp add: crystal_system_def crystal_system_tally_counts)

theorem crystal_system_classification_witness:
  "crystal_system (\<lambda>r. if m00 (rotation r) = 1 then 1 else 2)
     \<lparr>symmetry_operators = [], representative_symmetry_operators =
        [\<lparr>rotation = Matrix3D 1 0 0 0 1 0 0 0 1, translation = Vector3D 0 0 0\<rparr>,
         \<lparr>rotation = Matrix3D (-1) 0 0 0 1 0 0 0 (-1), translation = Vector3D 0 (1/2) (1/2)\<rparr>],
       centring_vectors = [], has_inversion = False, has_inversion_at_origin = False,
       position_of_inversion = Vector3D 0 0 0, name = ''P21''\<rparr> = Inr ''monoclinic''"
  using crystal_system_classification [of "\<lambda>r. if m00 (rotation r) = 1 then 1 else 2"
     "\<lparr>symmetry_operators = [], representative_symmetry_operators =
        [\<lparr>rotation = Matrix3D 1 0 0 0 1 0 0 0 1, translation = Vector3D 0 0 0\<rparr>,
         \<lparr>rotation = Matrix3D (-1) 0 0 0 1 0 0 0 (-1), translation = Vector3D 0 (1/2) (1/2)\<rparr>],
       centring_vectors = [], has_inversion = False, has_inversion_at_origin = False,
       position_of_inversion = Vector3D 0 0 0, name = ''P21''\<rparr>"]
  by (simp add: order_count_def)

section \<open>Results on the comparison of two structures\<close>

text \<open>
  C8: each of the three operations that compare two structures
  (\<open>root_mean_square_Cartesian_displacement\<close>, \<open>RMSCD_with_matching\<close>,
  \<open>find_match\<close>) raises its error when the atom counts differ, whatever the search
  that would follow computes.
\<close>

theorem atom_count_mismatch_is_fatal:
  assumes "length (atoms lhs) \<noteq> length (atoms rhs)"
  shows "root_mean_square_Cartesian_displacement tol lhs rhs =
           Inl (RuntimeError ''root_mean_square_Cartesian_displacement(): number of atoms is not the same.'') \<and>
         RMSCD_with_matching matching lhs rhs add_shifts =
           Inl (RuntimeError ''RMSCD_with_matching(): numbers of atoms are not the same.'') \<and>
         find_match matching' lhs rhs shift_steps integer_shifts add_inversion correct_floating_axes =
           Inl (RuntimeError ''find_match(): numbers of atoms are not the same.'')"
  using assms
  by (auto simp: root_mean_square_Cartesian_displacement_def RMSCD_with_matching_def
        find_match_def Let_def)

theorem atom_count_mismatch_is_fatal_witness:
  "root_mean_square_Cartesian_displacement (1 / 1000000) (structure_with [carbon]) (structure_with []) =
     Inl (RuntimeError ''root_mean_square_Cartesian_displacement(): number of atoms is not the same.'') \<and>
   RMSCD_with_matching (\<lambda>l r a s. Inr 1) (structure_with [carbon]) (structure_with []) True =
     Inl (RuntimeError ''RMSCD_with_matching(): numbers of atoms are not the same.'') \<and>
   find_match (\<lambda>l r a n i c. Inr (SymmetryOperator_default, [1, 2, 3]))
       (structure_with [carbon]) (structure_with []) 2 [] False False =
     Inl (RuntimeError ''find_match(): numbers of atoms are not the same.'')"
proof -
  have ne: "length (atoms (structure_with [carbon])) \<noteq> length (atoms (structure_with []))"
    by (simp add: structure_with_def)
  show ?thesis
    using atom_count_mismatch_is_fatal [OF ne] by simp
qed

text \<open>
  C10: when both structures have no atoms, \<open>find_match\<close> returns the default symmetry
  operator (identity rotation, zero translation) without an error, and the caller's
  \<open>integer_shifts\<close> vector is what it was.
\<close>

theorem find_match_no_atoms:
  assumes "atoms lhs = []" and "atoms rhs = []"
  shows "find_match matching lhs rhs shift_steps integer_shifts add_inversion correct_floating_axes =
           Inr (\<lparr>rotation = identity_matrix, translation = Vector3D 0 0 0\<rparr>, integer_shifts)"
  using assms by (simp add: find_match_def SymmetryOperator_default_def zero_Vector3D_def)

theorem find_match_no_atoms_witness:
  "find_match (\<lambda>l r a n i c. Inl OutOfRange) (structure_with []) (structure_with []) 2 [7, 8, 9] True True =
     Inr (\<lparr>rotation = identity_matrix, translation = Vector3D 0 0 0\<rparr>, [7, 8, 9])"
proof -
  have e: "atoms (structure_with []) = []" by (simp add: structure_with_def)
  show ?thesis using find_match_no_atoms [OF e e] by simp
qed

section \<open>Results on CrystalLattice::shortest_distance2\<close>

subsection \<open>Finitely many lattice translates are closer than a given bound\<close>

lemma adjugate_mat_vec:
  "mat_vec (adjugate m) (mat_vec m v) =
     Vector3D (determinant m * vx v) (determinant m * vy v) (determinant m * vz v)"
  by (cases m; cases v) (simp add: adjugate_def mat_vec_def determinant_def algebra_simps)

lemma abs_le_square_plus_one: "\<bar>x::real\<bar> \<le> x * x + 1"
proof -
  have "0 \<le> (\<bar>x\<bar> - 1) * (\<bar>x\<bar> - 1)" by simp
  then have "2 * \<bar>x\<bar> \<le> \<bar>x\<bar> * \<bar>x\<bar> + 1" by (simp add: algebra_simps)
  then show ?thesis by (simp add: abs_mult_self_eq) 
qed

lemma component_le_norm2:
  "\<bar>vx w\<bar> \<le> norm2 w + 1" "\<bar>vy w\<bar> \<le> norm2 w + 1" "\<bar>vz w\<bar> \<le> norm2 w + 1"
proof -
  have sq: "0 \<le> vx w * vx w" "0 \<le> vy w * vy w" "0 \<le> vz w * vz w" by simp_all
  show "\<bar>vx w\<bar> \<le> norm2 w + 1"
    using abs_le_square_plus_one [of "vx w"] sq unfolding norm2_def by linarith
  show "\<bar>vy w\<bar> \<le> norm2 w + 1"
    using abs_le_square_plus_one [of "vy w"] sq unfolding norm2_def by linarith
  show "\<bar>vz w\<bar> \<le> norm2 w + 1"
    using abs_le_square_plus_one [of "vz w"] sq unfolding norm2_def by linarith
qed

lemma combination_bound:
  assumes "norm2 w < B"
  shows "\<bar>a * vx w + b * vy w + c * vz w\<bar> \<le> (\<bar>a\<bar> + \<bar>b\<bar> + \<bar>c\<bar>) * (B + 1)"
proof -
  have x: "\<bar>a * vx w\<bar> \<le> \<bar>a\<bar> * (B + 1)"
    using component_le_norm2(1) [of w] assms by (simp add: abs_mult mult_left_mono)
  have y: "\<bar>b * vy w\<bar> \<le> \<bar>b\<bar> * (B + 1)"
    using component_le_norm2(2) [of w] assms by (simp add: abs_mult mult_left_mono)
  have z: "\<bar>c * vz w\<bar> \<le> \<bar>c\<bar> * (B + 1)"
    using component_le_norm2(3) [of w] assms by (simp add: abs_mult mult_left_mono)
  have "\<bar>a * vx w + b * vy w + c * vz w\<bar> \<le> \<bar>a * vx w\<bar> + \<bar>b * vy w\<bar> + \<bar>c * vz w\<bar>"
    by linarith
  with x y z show ?thesis by (simp add: algebra_simps)
qed

lemma preimage_bound:
  assumes det: "determinant m \<noteq> 0" and near: "norm2 (mat_vec m v) < B"
  shows "\<bar>vx v\<bar> \<le> adjugate_size m * (B + 1) / \<bar>determinant m\<bar>"
    and "\<bar>vy v\<bar> \<le> adjugate_size m * (B + 1) / \<bar>determinant m\<bar>"
    and "\<bar>vz v\<bar> \<le> adjugate_size m * (B + 1) / \<bar>determinant m\<bar>"
proof -
  let ?a = "adjugate m" and ?w = "mat_vec m v"
  have B: "0 \<le> B + 1"
    using near component_le_norm2(1) [of ?w] by linarith
  have eq: "mat_vec ?a ?w = Vector3D (determinant m * vx v) (determinant m * vy v) (determinant m * vz v)"
    by (rule adjugate_mat_vec)
  have pos: "0 < \<bar>determinant m\<bar>" using det by simp
  have x: "\<bar>determinant m\<bar> * \<bar>vx v\<bar> \<le> adjugate_size m * (B + 1)"
  proof -
    have "determinant m * vx v = m00 ?a * vx ?w + m01 ?a * vy ?w + m02 ?a * vz ?w"
      using arg_cong [OF eq, of vx] by (simp add: mat_vec_def)
    then have "\<bar>determinant m * vx v\<bar> \<le> (\<bar>m00 ?a\<bar> + \<bar>m01 ?a\<bar> + \<bar>m02 ?a\<bar>) * (B + 1)"
      using combination_bound [OF near] by simp
    also have "\<dots> \<le> adjugate_size m * (B + 1)"
      using B by (intro mult_right_mono) (simp_all add: adjugate_size_def Let_def)
    finally show ?thesis by (simp add: abs_mult)
  qed
  have y: "\<bar>determinant m\<bar> * \<bar>vy v\<bar> \<le> adjugate_size m * (B + 1)"
  proof -
    have "determinant m * vy v = m10 ?a * vx ?w + m11 ?a * vy ?w + m12 ?a * vz ?w"
      using arg_cong [OF eq, of vy] by (simp add: mat_vec_def)
    then have "\<bar>determinant m * vy v\<bar> \<le> (\<bar>m10 ?a\<bar> + \<bar>m11 ?a\<bar> + \<bar>m12 ?a\<bar>) * (B + 1)"
      using combination_bound [OF near] by simp
    also have "\<dots> \<le> adjugate_size m * (B + 1)"
      using B by (intro mult_right_mono) (simp_all add: adjugate_size_def Let_def)
    finally show ?thesis by (simp add: abs_mult)
  qed
  have z: "\<bar>determinant m\<bar> * \<bar>vz v\<bar> \<le> adjugate_size m * (B + 1)"
  proof -
    have "determinant m * vz v = m20 ?a * vx ?w + m21 ?a * vy ?w + m22 ?a * vz ?w"
      using arg_cong [OF eq, of vz] by (simp add: mat_vec_def)
    then have "\<bar>determinant m * vz v\<bar> \<le> (\<bar>m20 ?a\<bar> + \<bar>m21 ?a\<bar> + \<bar>m22 ?a\<bar>) * (B + 1)"
      using combination_bound [OF near] by simp
    also have "\<dots> \<le> adjugate_size m * (B + 1)"
      using B by (intro mult_right_mono) (simp_all add: adjugate_size_def Let_def)
    finally show ?thesis by (simp add: abs_mult)
  qed
  show "\<bar>vx v\<bar> \<le> adjugate_size m * (B + 1) / \<bar>determinant m\<bar>"
    using x pos by (simp add: pos_le_divide_eq mult.commute)
  show "\<bar>vy v\<bar> \<le> adjugate_size m * (B + 1) / \<bar>determinant m\<bar>"
    using y pos by (simp add: pos_le_divide_eq mult.commute)
  show "\<bar>vz v\<bar> \<le> adjugate_size m * (B + 1) / \<bar>determinant m\<bar>"
    using z pos by (simp add: pos_le_divide_eq mult.commute)
qed

lemma int_bounded:
  assumes "\<bar>x + of_int i\<bar> \<le> (R::real)"
  shows "i \<in> {- \<lceil>R + \<bar>x\<bar>\<rceil> .. \<lceil>R + \<bar>x\<bar>\<rceil>}"
proof -
  have "\<bar>of_int i :: real\<bar> \<le> R + \<bar>x\<bar>" using assms by linarith
  then have "of_int i \<le> R + \<bar>x\<bar>" "- (R + \<bar>x\<bar>) \<le> of_int i" by linarith+
  then have "i \<le> \<lceil>R + \<bar>x\<bar>\<rceil>" "- \<lceil>R + \<bar>x\<bar>\<rceil> \<le> i"
    by linarith+
  then show ?thesis by simp
qed

lemma finite_closer_translates:
  assumes det: "determinant m \<noteq> 0"
  shows "finite {t. norm2 (mat_vec m (d + int_vector t)) < B}"
proof -
  define R where "R = adjugate_size m * (B + 1) / \<bar>determinant m\<bar>"
  define I where "I = {- \<lceil>R + \<bar>vx d\<bar>\<rceil> .. \<lceil>R + \<bar>vx d\<bar>\<rceil>}"
  define J where "J = {- \<lceil>R + \<bar>vy d\<bar>\<rceil> .. \<lceil>R + \<bar>vy d\<bar>\<rceil>}"
  define K where "K = {- \<lceil>R + \<bar>vz d\<bar>\<rceil> .. \<lceil>R + \<bar>vz d\<bar>\<rceil>}"
  have "{t. norm2 (mat_vec m (d + int_vector t)) < B} \<subseteq> I \<times> J \<times> K"
  proof
    fix t assume "t \<in> {t. norm2 (mat_vec m (d + int_vector t)) < B}"
    then have near: "norm2 (mat_vec m (d + int_vector t)) < B" by simp
    obtain i j k where t: "t = (i, j, k)" by (cases t) auto
    have "\<bar>vx d + of_int i\<bar> \<le> R" "\<bar>vy d + of_int j\<bar> \<le> R" "\<bar>vz d + of_int k\<bar> \<le> R"
      using preimage_bound [OF det near]
      by (simp_all add: R_def t int_vector_def plus_Vector3D_def)
    then show "t \<in> I \<times> J \<times> K"
      unfolding I_def J_def K_def t using int_bounded by blast
  qed
  moreover have "finite (I \<times> J \<times> K)"
    by (simp add: I_def J_def K_def)
  ultimately show ?thesis by (rule finite_subset)
qed


subsection \<open>One pass of the loop\<close>

lemma int_vector_add: "d + int_vector s + int_vector t = d + int_vector (int_add s t)"
  by (cases s; cases t) (simp add: int_vector_def int_add_def plus_Vector3D_def)

lemma int_vector_zero: "d + int_vector (0, 0, 0) = d"
  by (simp add: int_vector_def plus_Vector3D_def)

lemma scan_step_inv: "scan_inv L d0 st \<Longrightarrow> scan_inv L d0 (scan_step L st t)"
proof -
  assume inv: "scan_inv L d0 st"
  obtain d s ch where st: "st = (d, s, ch)" by (cases st) auto
  from inv st obtain u where u: "d = d0 + int_vector u" by (auto simp: scan_inv_def)
  have "d + int_vector t = d0 + int_vector (int_add u t)"
    by (simp add: u int_vector_add)
  then have "\<exists>u'. d + int_vector t = d0 + int_vector u'" by blast
  with inv st show ?thesis
    by (auto simp: scan_inv_def Let_def)
qed

lemma foldl_scan_inv: "scan_inv L d0 st \<Longrightarrow> scan_inv L d0 (foldl (scan_step L) st ts)"
  by (induction ts arbitrary: st) (simp_all add: scan_step_inv)

lemma scan_inv_start: "scan_inv L d (d, norm2 (fractional_to_orthogonal L d), False)"
proof -
  have "d = d + int_vector (0, 0, 0)" by (simp add: int_vector_zero)
  then have "\<exists>u. d = d + int_vector u" by blast
  then show ?thesis by (simp add: scan_inv_def)
qed

lemma scan_result:
  assumes "scan L d (norm2 (fractional_to_orthogonal L d)) = (d', s', changed)"
  shows "\<exists>u. d' = d + int_vector u"
    and "s' = norm2 (fractional_to_orthogonal L d')"
    and "s' \<le> norm2 (fractional_to_orthogonal L d)"
    and "changed \<Longrightarrow> s' < norm2 (fractional_to_orthogonal L d)"
    and "\<not> changed \<Longrightarrow> d' = d"
  using foldl_scan_inv [OF scan_inv_start, of L d neighbour_offsets] assms
  by (simp_all add: scan_def scan_inv_def)

lemma descend_step: "scan L d s = (d', s', True) \<Longrightarrow> descend L d s = descend L d' s'"
  by (subst descend.simps) simp

lemma descend_stop: "scan L d s = (d', s', False) \<Longrightarrow> descend L d s = Some (d', s')"
  by (subst descend.simps) simp

subsection \<open>The loop ends\<close>

lemma finite_closer:
  "determinant (fractional_to_orthogonal_matrix L) \<noteq> 0 \<Longrightarrow> finite (closer L d)"
  unfolding closer_def fractional_to_orthogonal_def by (rule finite_closer_translates)

lemma closer_decreases:
  assumes det: "determinant (fractional_to_orthogonal_matrix L) \<noteq> 0"
    and less: "norm2 (fractional_to_orthogonal L (d + int_vector u))
                < norm2 (fractional_to_orthogonal L d)"
  shows "card (closer L (d + int_vector u)) < card (closer L d)"
proof -
  let ?f = "int_add u"
  have inj: "inj_on ?f (closer L (d + int_vector u))"
    by (auto simp: inj_on_def int_add_def split: prod.splits)
  have sub: "?f ` closer L (d + int_vector u) \<subseteq> closer L d"
    using less by (auto simp: closer_def int_vector_add)
  have mem: "u \<in> closer L d" using less by (simp add: closer_def)
  have "u \<notin> ?f ` closer L (d + int_vector u)"
  proof
    assume "u \<in> ?f ` closer L (d + int_vector u)"
    then obtain t where t: "t \<in> closer L (d + int_vector u)" and "u = int_add u t" by blast
    then have "t = (0, 0, 0)" by (auto simp: int_add_def split: prod.splits)
    with t show False by (simp add: closer_def int_vector_zero)
  qed
  with sub mem have "?f ` closer L (d + int_vector u) \<subset> closer L d" by blast
  then have "card (?f ` closer L (d + int_vector u)) < card (closer L d)"
    using finite_closer [OF det] by (simp add: psubset_card_mono)
  then show ?thesis by (simp add: card_image [OF inj])
qed

text \<open>
  From every start the loop returns, and what it returns is a lattice translate of the
  start that a further pass leaves alone and that is no longer than the start.
\<close>

lemma descend_terminates:
  assumes det: "determinant (fractional_to_orthogonal_matrix L) \<noteq> 0"
  shows "\<exists>d'. descend L d (norm2 (fractional_to_orthogonal L d))
                 = Some (d', norm2 (fractional_to_orthogonal L d')) \<and>
              scan L d' (norm2 (fractional_to_orthogonal L d'))
                 = (d', norm2 (fractional_to_orthogonal L d'), False) \<and>
              (\<exists>u. d' = d + int_vector u) \<and>
              norm2 (fractional_to_orthogonal L d') \<le> norm2 (fractional_to_orthogonal L d)"
proof (induction "card (closer L d)" arbitrary: d rule: less_induct)
  case less
  obtain d1 s1 changed where sc: "scan L d (norm2 (fractional_to_orthogonal L d)) = (d1, s1, changed)"
    by (cases "scan L d (norm2 (fractional_to_orthogonal L d))") auto
  have s1: "s1 = norm2 (fractional_to_orthogonal L d1)" by (rule scan_result(2) [OF sc])
  show ?case
  proof (cases changed)
    case False
    then have same: "d1 = d" using scan_result(5) [OF sc] by simp
    have "descend L d (norm2 (fractional_to_orthogonal L d)) = Some (d1, s1)"
      using sc False by (simp add: descend_stop)
    moreover have "d = d + int_vector (0, 0, 0)" by (simp add: int_vector_zero)
    then have "\<exists>u. d = d + int_vector u" by blast
    ultimately show ?thesis using sc False s1 same by auto
  next
    case True
    from scan_result(1) [OF sc] obtain u where u: "d1 = d + int_vector u" by blast
    have lt: "norm2 (fractional_to_orthogonal L d1) < norm2 (fractional_to_orthogonal L d)"
      using scan_result(4) [OF sc] True s1 by simp
    then have "card (closer L d1) < card (closer L d)"
      unfolding u by (rule closer_decreases [OF det])
    from less [OF this] obtain d' where
      ret: "descend L d1 (norm2 (fractional_to_orthogonal L d1))
              = Some (d', norm2 (fractional_to_orthogonal L d'))"
      and stay: "scan L d' (norm2 (fractional_to_orthogonal L d'))
              = (d', norm2 (fractional_to_orthogonal L d'), False)"
      and tr: "\<exists>w. d' = d1 + int_vector w"
      and le: "norm2 (fractional_to_orthogonal L d') \<le> norm2 (fractional_to_orthogonal L d1)"
      by blast
    from tr obtain w where "d' = d1 + int_vector w" by blast
    then have "d' = d + int_vector (int_add u w)" by (simp add: u int_vector_add)
    then have tr': "\<exists>u. d' = d + int_vector u" by blast
    have "descend L d (norm2 (fractional_to_orthogonal L d))
            = descend L d1 (norm2 (fractional_to_orthogonal L d1))"
      using sc True s1 by (simp add: descend_step)
    with ret stay tr' le lt show ?thesis by auto
  qed
qed


text \<open>
  C4: for every lattice whose cell is not degenerate (the matrix from fractional to
  Cartesian coordinates is invertible) and every pair of fractional positions, the
  \<open>do ... while\<close> loop of \<open>shortest_distance2\<close> and of \<open>shortest_distance\<close> ends:
  both functions return, what they return is a fixed point of the pass over the 27
  offsets, and the lattice translates that are closer than the start are finitely many.
\<close>

theorem shortest_distance_loop_terminates:
  assumes "determinant (fractional_to_orthogonal_matrix L) \<noteq> 0"
  shows "(\<exists>v. shortest_distance2 adj L lhs rhs = Some v) \<and>
         (\<exists>dist dv. shortest_distance_out adj L lhs rhs = Some (dist, dv) \<and>
            scan L dv (norm2 (fractional_to_orthogonal L dv))
              = (dv, norm2 (fractional_to_orthogonal L dv), False)) \<and>
         finite {t. norm2 (fractional_to_orthogonal L (adj (rhs - lhs) + int_vector t))
                      < norm2 (fractional_to_orthogonal L (adj (rhs - lhs)))}"
proof -
  from descend_terminates [OF assms, of "adj (rhs - lhs)"] obtain d' where
    ret: "descend L (adj (rhs - lhs)) (norm2 (fractional_to_orthogonal L (adj (rhs - lhs))))
            = Some (d', norm2 (fractional_to_orthogonal L d'))"
    and stay: "scan L d' (norm2 (fractional_to_orthogonal L d'))
            = (d', norm2 (fractional_to_orthogonal L d'), False)"
    by blast
  have "\<exists>v. shortest_distance2 adj L lhs rhs = Some v"
    using ret by (simp add: shortest_distance2_def)
  moreover have "\<exists>dist dv. shortest_distance_out adj L lhs rhs = Some (dist, dv) \<and>
            scan L dv (norm2 (fractional_to_orthogonal L dv))
              = (dv, norm2 (fractional_to_orthogonal L dv), False)"
    using ret stay by (simp add: shortest_distance_out_def)
  moreover have "finite {t. norm2 (fractional_to_orthogonal L (adj (rhs - lhs) + int_vector t))
                      < norm2 (fractional_to_orthogonal L (adj (rhs - lhs)))}"
    using finite_closer [OF assms, of "adj (rhs - lhs)"] by (simp add: closer_def)
  ultimately show ?thesis by blast
qed

subsection \<open>Runs in a cell with an acute angle\<close>

lemma sin_arccos_4_5: "sin (arccos (4 / 5)) = (3 / 5 :: real)"
proof -
  have "sin (arccos (4 / 5 :: real)) = sqrt (1 - (4 / 5)\<^sup>2)"
    by (rule sin_arccos) simp_all
  also have "\<dots> = sqrt ((3 / 5)\<^sup>2)" by (simp add: power2_eq_square)
  also have "\<dots> = 3 / 5" by simp
  finally show ?thesis .
qed

lemma sqrt_100: "sqrt 100 = (10::real)"
proof -
  have "sqrt 100 = sqrt ((10::real)\<^sup>2)" by simp
  also have "\<dots> = 10" by simp
  finally show ?thesis .
qed

lemma acute_cell_matrix:
  "fractional_to_orthogonal_matrix acute_cell = Matrix3D 8 (16 / 5) 0 0 (12 / 5) 0 0 0 10"
  by (simp add: acute_cell_def CrystalLattice_ctor_def Let_def sin_arccos_4_5 sqrt_100)

lemma acute_cell_determinant: "determinant (fractional_to_orthogonal_matrix acute_cell) = 192"
  by (simp add: acute_cell_matrix determinant_def)

lemma acute_cell_norm2:
  "norm2 (fractional_to_orthogonal acute_cell (Vector3D x y z)) =
     (8 * x + 16 / 5 * y) * (8 * x + 16 / 5 * y) + (12 / 5 * y) * (12 / 5 * y) + (10 * z) * (10 * z)"
  by (simp add: fractional_to_orthogonal_def acute_cell_matrix mat_vec_def norm2_def)

lemmas scan_unfold = scan_def neighbour_offsets_def int_vector_def plus_Vector3D_def acute_cell_norm2

lemma scan_forward_1:
  "scan acute_cell (Vector3D (3 / 8) (1 / 4) 0) (74 / 5) = (Vector3D (- (5 / 8)) (5 / 4) 0, 10, True)"
  by (simp add: scan_unfold)

lemma scan_forward_2:
  "scan acute_cell (Vector3D (- (5 / 8)) (5 / 4) 0) 10 = (Vector3D (- (5 / 8)) (5 / 4) 0, 10, False)"
  by (simp add: scan_unfold)

lemma descend_forward:
  "descend acute_cell (Vector3D (3 / 8) (1 / 4) 0) (74 / 5) = Some (Vector3D (- (5 / 8)) (5 / 4) 0, 10)"
proof -
  have "descend acute_cell (Vector3D (3 / 8) (1 / 4) 0) (74 / 5)
      = descend acute_cell (Vector3D (- (5 / 8)) (5 / 4) 0) 10"
    by (rule descend_step [OF scan_forward_1])
  also have "\<dots> = Some (Vector3D (- (5 / 8)) (5 / 4) 0, 10)"
    by (rule descend_stop [OF scan_forward_2])
  finally show ?thesis .
qed

lemma scan_backward_floor:
  "scan acute_cell (Vector3D (5 / 8) (3 / 4) 0) 58 = (Vector3D (- (3 / 8)) (3 / 4) 0, 18 / 5, True)"
  by (simp add: scan_unfold)

lemma scan_backward_nearest:
  "scan acute_cell (Vector3D (- (3 / 8)) (- (1 / 4)) 0) (74 / 5) = (Vector3D (- (3 / 8)) (3 / 4) 0, 18 / 5, True)"
  by (simp add: scan_unfold)

lemma scan_backward_2:
  "scan acute_cell (Vector3D (- (3 / 8)) (3 / 4) 0) (18 / 5) = (Vector3D (- (3 / 8)) (3 / 4) 0, 18 / 5, False)"
  by (simp add: scan_unfold)

lemma descend_backward_floor:
  "descend acute_cell (Vector3D (5 / 8) (3 / 4) 0) 58 = Some (Vector3D (- (3 / 8)) (3 / 4) 0, 18 / 5)"
proof -
  have "descend acute_cell (Vector3D (5 / 8) (3 / 4) 0) 58
      = descend acute_cell (Vector3D (- (3 / 8)) (3 / 4) 0) (18 / 5)"
    by (rule descend_step [OF scan_backward_floor])
  also have "\<dots> = Some (Vector3D (- (3 / 8)) (3 / 4) 0, 18 / 5)"
    by (rule descend_stop [OF scan_backward_2])
  finally show ?thesis .
qed

lemma descend_backward_nearest:
  "descend acute_cell (Vector3D (- (3 / 8)) (- (1 / 4)) 0) (74 / 5) = Some (Vector3D (- (3 / 8)) (3 / 4) 0, 18 / 5)"
proof -
  have "descend acute_cell (Vector3D (- (3 / 8)) (- (1 / 4)) 0) (74 / 5)
      = descend acute_cell (Vector3D (- (3 / 8)) (3 / 4) 0) (18 / 5)"
    by (rule descend_step [OF scan_backward_nearest])
  also have "\<dots> = Some (Vector3D (- (3 / 8)) (3 / 4) 0, 18 / 5)"
    by (rule descend_stop [OF scan_backward_2])
  finally show ?thesis .
qed

lemma reduce_forward:
  "adjust_for_translations (Vector3D (3 / 8) (1 / 4) 0 - Vector3D 0 0 0) = Vector3D (3 / 8) (1 / 4) 0"
  "nearest_integer_reduction (Vector3D (3 / 8) (1 / 4) 0 - Vector3D 0 0 0) = Vector3D (3 / 8) (1 / 4) 0"
  by (simp_all add: adjust_for_translations_def nearest_integer_reduction_def minus_Vector3D_def
        frac_def round_def)

lemma reduce_backward:
  "adjust_for_translations (Vector3D 0 0 0 - Vector3D (3 / 8) (1 / 4) 0) = Vector3D (5 / 8) (3 / 4) 0"
  "nearest_integer_reduction (Vector3D 0 0 0 - Vector3D (3 / 8) (1 / 4) 0) = Vector3D (- (3 / 8)) (- (1 / 4)) 0"
  by (simp_all add: adjust_for_translations_def nearest_integer_reduction_def minus_Vector3D_def
        frac_def round_def)

lemma shortest_distance2_forward:
  "shortest_distance2 adjust_for_translations acute_cell (Vector3D 0 0 0) (Vector3D (3 / 8) (1 / 4) 0) = Some 10"
  "shortest_distance2 nearest_integer_reduction acute_cell (Vector3D 0 0 0) (Vector3D (3 / 8) (1 / 4) 0) = Some 10"
  by (simp_all add: shortest_distance2_def reduce_forward acute_cell_norm2 descend_forward)

lemma shortest_distance2_backward:
  "shortest_distance2 adjust_for_translations acute_cell (Vector3D (3 / 8) (1 / 4) 0) (Vector3D 0 0 0) = Some (18 / 5)"
  "shortest_distance2 nearest_integer_reduction acute_cell (Vector3D (3 / 8) (1 / 4) 0) (Vector3D 0 0 0) = Some (18 / 5)"
  by (simp_all add: shortest_distance2_def reduce_backward acute_cell_norm2
        descend_backward_floor descend_backward_nearest)

theorem shortest_distance_loop_terminates_witness:
  "determinant (fractional_to_orthogonal_matrix acute_cell) \<noteq> 0 \<and>
   (\<exists>v. shortest_distance2 adjust_for_translations acute_cell
           (Vector3D 0 0 0) (Vector3D (3 / 8) (1 / 4) 0) = Some v) \<and>
   (\<exists>dist dv. shortest_distance_out adjust_for_translations acute_cell
           (Vector3D 0 0 0) (Vector3D (3 / 8) (1 / 4) 0) = Some (dist, dv) \<and>
       scan acute_cell dv (norm2 (fractional_to_orthogonal acute_cell dv))
         = (dv, norm2 (fractional_to_orthogonal acute_cell dv), False))"
proof -
  have det: "determinant (fractional_to_orthogonal_matrix acute_cell) \<noteq> 0"
    by (simp add: acute_cell_determinant)
  show ?thesis
    using det shortest_distance_loop_terminates [OF det, of adjust_for_translations
        "Vector3D 0 0 0" "Vector3D (3 / 8) (1 / 4) 0"]
    by blast
qed

text \<open>
  C2: in the cell a = 8, b = 4, c = 10, alpha = beta = 90 degrees, cos gamma = 4/5, for
  P = (0, 0, 0) and Q = (3/8, 1/4, 0), \<open>shortest_distance2\<close> returns 10 under both
  readings of the reduction, while the translate of Q - P by (0, -1, 0) has squared length
  18/5: the value returned is not the minimum over the lattice translates.
\<close>

theorem shortest_distance2_misses_minimum:
  "shortest_distance2 adjust_for_translations acute_cell (Vector3D 0 0 0) (Vector3D (3 / 8) (1 / 4) 0) = Some 10 \<and>
   shortest_distance2 nearest_integer_reduction acute_cell (Vector3D 0 0 0) (Vector3D (3 / 8) (1 / 4) 0) = Some 10 \<and>
   norm2 (fractional_to_orthogonal acute_cell
            (Vector3D (3 / 8) (1 / 4) 0 - Vector3D 0 0 0 + int_vector (0, - 1, 0))) = 18 / 5 \<and>
   \<not> is_minimum_image_distance2 acute_cell (Vector3D 0 0 0) (Vector3D (3 / 8) (1 / 4) 0) 10"
proof -
  have n: "norm2 (fractional_to_orthogonal acute_cell
            (Vector3D (3 / 8) (1 / 4) 0 - Vector3D 0 0 0 + int_vector (0, - 1, 0))) = 18 / 5"
    by (simp add: minus_Vector3D_def plus_Vector3D_def int_vector_def acute_cell_norm2)
  have "\<not> (\<forall>t. (10::real) \<le> norm2 (fractional_to_orthogonal acute_cell
            (Vector3D (3 / 8) (1 / 4) 0 - Vector3D 0 0 0 + int_vector t)))"
  proof
    assume "\<forall>t. (10::real) \<le> norm2 (fractional_to_orthogonal acute_cell
            (Vector3D (3 / 8) (1 / 4) 0 - Vector3D 0 0 0 + int_vector t))"
    then have "(10::real) \<le> norm2 (fractional_to_orthogonal acute_cell
            (Vector3D (3 / 8) (1 / 4) 0 - Vector3D 0 0 0 + int_vector (0, - 1, 0)))" by blast
    with n show False by simp
  qed
  then have "\<not> is_minimum_image_distance2 acute_cell (Vector3D 0 0 0) (Vector3D (3 / 8) (1 / 4) 0) 10"
    by (simp add: is_minimum_image_distance2_def)
  with n shortest_distance2_forward show ?thesis by blast
qed

text \<open>A common shift of both positions changes nothing, whatever the shift.\<close>

lemma shortest_distance_translation_invariant:
  "shortest_distance adj L (lhs + n) (rhs + n) = shortest_distance adj L lhs rhs"
proof -
  have "rhs + n - (lhs + n) = rhs - lhs"
    by (cases lhs; cases rhs; cases n) (simp add: plus_Vector3D_def minus_Vector3D_def)
  then show ?thesis by (simp add: shortest_distance_def shortest_distance2_def)
qed

text \<open>
  C3: in the same cell, for P = (0, 0, 0) and Q = (3/8, 1/4, 0), the distance from P to Q
  is computed as the square root of 10 and the distance from Q to P as the square root of
  18/5, under both readings of the reduction: \<open>shortest_distance\<close> is not symmetric.
\<close>

theorem shortest_distance_not_symmetric:
  "shortest_distance adjust_for_translations acute_cell (Vector3D 0 0 0) (Vector3D (3 / 8) (1 / 4) 0) = Some (sqrt 10) \<and>
   shortest_distance adjust_for_translations acute_cell (Vector3D (3 / 8) (1 / 4) 0) (Vector3D 0 0 0) = Some (sqrt (18 / 5)) \<and>
   shortest_distance nearest_integer_reduction acute_cell (Vector3D 0 0 0) (Vector3D (3 / 8) (1 / 4) 0) = Some (sqrt 10) \<and>
   shortest_distance nearest_integer_reduction acute_cell (Vector3D (3 / 8) (1 / 4) 0) (Vector3D 0 0 0) = Some (sqrt (18 / 5)) \<and>
   sqrt 10 \<noteq> sqrt (18 / 5)"
  by (simp add: shortest_distance_def shortest_distance2_forward shortest_distance2_backward)


section \<open>Results on the SpaceGroup constructor\<close>

subsection \<open>check_if_closed decides closure\<close>

lemma operator_found_iff:
  "operator_found tol r ops \<longleftrightarrow> (\<exists>c \<in> set ops. nearly_equal_operator tol r c)"
  by (induction ops) auto

lemma check_products_cases:
  "check_products tol ops si xs =
     (if \<forall>b \<in> set xs. \<exists>c \<in> set ops. nearly_equal_operator tol (op_times si b) c then Inr ()
      else Inl (RuntimeError ''check_if_closed( std::vector< SymmetryOperator > ): operator not found.''))"
  by (induction xs) (simp_all add: operator_found_iff)

lemma check_all_products_cases:
  "check_all_products tol ops ys =
     (if \<forall>a \<in> set ys. \<forall>b \<in> set ops. \<exists>c \<in> set ops. nearly_equal_operator tol (op_times a b) c
      then Inr ()
      else Inl (RuntimeError ''check_if_closed( std::vector< SymmetryOperator > ): operator not found.''))"
  by (induction ys) (simp_all add: check_products_cases)

lemma check_if_closed_cases:
  "check_if_closed tol ops =
     (if closed_under_composition tol ops then Inr ()
      else Inl (RuntimeError ''check_if_closed( std::vector< SymmetryOperator > ): operator not found.''))"
  by (simp add: check_if_closed_def closed_under_composition_def check_all_products_cases)

subsection \<open>The operators that the constructor stores\<close>

lemma decompose_symmetry_operators:
  "decompose tol sg = Inr sg' \<Longrightarrow> symmetry_operators sg' = symmetry_operators sg"
  by (auto simp: decompose_def split: sum.splits prod.splits if_splits)

lemma swap_identity_to_front_set:
  "i + length ss = length ops \<Longrightarrow> set (swap_identity_to_front tol ops ss i) = set ops"
proof (induction ss arbitrary: i)
  case Nil
  then show ?case by simp
next
  case (Cons s ss)
  from Cons.prems have "0 < length ops" and "i < length ops" by auto
  then have "set (ops[0 := ops ! i, i := ops ! 0]) = set ops"
    by (rule set_swap)
  moreover have "set (swap_identity_to_front tol ops ss (Suc i)) = set ops"
    using Cons by simp
  ultimately show ?case by simp
qed

lemma closed_cong: "set ops = set ops' \<Longrightarrow> closed_under_composition tol ops = closed_under_composition tol ops'"
  by (simp add: closed_under_composition_def)

lemma SpaceGroup_ctor_operators:
  assumes "SpaceGroup_ctor tol ops nm = Inr sg"
  shows "closed_under_composition tol ops" and "set (symmetry_operators sg) = set ops"
proof -
  from assms show c: "closed_under_composition tol ops"
    by (auto simp: SpaceGroup_ctor_def check_if_closed_cases split: if_splits)
  from assms c obtain s0 rest where ops: "ops = s0 # rest"
    by (cases ops) (auto simp: SpaceGroup_ctor_def check_if_closed_cases)
  let ?l = "if \<not> is_identity tol s0 then swap_identity_to_front tol ops rest 1 else ops"
  from assms c ops obtain sg0 where
    d: "decompose tol (SpaceGroup_blank\<lparr>symmetry_operators := ?l\<rparr>) = Inr sg0" and sg: "sg = sg0\<lparr>name := nm\<rparr>"
    by (auto simp: SpaceGroup_ctor_def check_if_closed_cases split: sum.splits)
  have "symmetry_operators sg = ?l"
    using decompose_symmetry_operators [OF d] sg by simp
  moreover have "set (swap_identity_to_front tol ops rest 1) = set ops"
    by (rule swap_identity_to_front_set) (simp add: ops)
  ultimately show "set (symmetry_operators sg) = set ops" by simp
qed

text \<open>The default constructor builds \<open>P1\<close>, for every positive tolerance.\<close>

lemma SpaceGroup_default_P1: "0 < tol \<Longrightarrow> SpaceGroup_default tol = Inr P1"
  by (simp add: SpaceGroup_default_def decompose_def SpaceGroup_blank_def P1_def
        SymmetryOperator_default_def determinant_def identity_matrix_def diagonal_matrix_def
        nearly_equal_def nearly_equal_vector_def nearly_equal_matrix_def zero_Vector3D_def)

text \<open>
  C1: the constructor from an operator list raises the error of \<open>check_if_closed\<close>
  whenever the list is not closed_under_composition under composition, and every list it accepts is closed_under_composition:
  in the group it builds, the composition of any two operators is equal within the
  tolerance to an operator of the group.
\<close>

theorem constructor_checks_closure:
  "(\<not> closed_under_composition tol ops \<longrightarrow>
      SpaceGroup_ctor tol ops nm =
        Inl (RuntimeError ''check_if_closed( std::vector< SymmetryOperator > ): operator not found.'')) \<and>
   (\<forall>sg. SpaceGroup_ctor tol ops nm = Inr sg \<longrightarrow>
      closed_under_composition tol ops \<and>
      (\<forall>a \<in> set (symmetry_operators sg). \<forall>b \<in> set (symmetry_operators sg).
         \<exists>c \<in> set (symmetry_operators sg). nearly_equal_operator tol (op_times a b) c))"
proof (intro conjI allI impI)
  assume "\<not> closed_under_composition tol ops"
  then show "SpaceGroup_ctor tol ops nm =
        Inl (RuntimeError ''check_if_closed( std::vector< SymmetryOperator > ): operator not found.'')"
    by (simp add: SpaceGroup_ctor_def check_if_closed_cases)
next
  fix sg assume a: "SpaceGroup_ctor tol ops nm = Inr sg"
  show "closed_under_composition tol ops" by (rule SpaceGroup_ctor_operators(1) [OF a])
  then have "closed_under_composition tol (symmetry_operators sg)"
    using closed_cong [OF SpaceGroup_ctor_operators(2) [OF a]] by simp
  then show "\<forall>a \<in> set (symmetry_operators sg). \<forall>b \<in> set (symmetry_operators sg).
         \<exists>c \<in> set (symmetry_operators sg). nearly_equal_operator tol (op_times a b) c"
    by (simp add: closed_under_composition_def)
qed


subsection \<open>Concrete runs of the constructor\<close>

lemmas operator_unfold =
  SymmetryOperator_default_def inversion_at_origin_def off_identity_def shear_def half_shift_def
  op_times_def op_invert_def invert_def adjugate_def scalar_times_def mat_mul_def mat_vec_def
  determinant_def identity_matrix_def diagonal_matrix_def
  nearly_equal_def nearly_equal_vector_def nearly_equal_matrix_def nearly_equal_operator_def
  is_identity_def zero_Vector3D_def plus_Vector3D_def uminus_Vector3D_def

lemma half_shift_not_closed: "\<not> closed_under_composition (1 / 1000) [half_shift]"
  by (simp add: closed_under_composition_def operator_unfold)

lemma SpaceGroup_ctor_Pbar1:
  "SpaceGroup_ctor (1 / 1000) [inversion_at_origin, SymmetryOperator_default] ''P-1'' = Inr Pbar1"
  by (simp add: SpaceGroup_ctor_def check_if_closed_def decompose_def SpaceGroup_blank_def
        Pbar1_def operator_unfold)

theorem constructor_checks_closure_witness:
  "\<not> closed_under_composition (1 / 1000) [half_shift] \<and>
   SpaceGroup_ctor (1 / 1000) [half_shift] ''bad'' =
     Inl (RuntimeError ''check_if_closed( std::vector< SymmetryOperator > ): operator not found.'') \<and>
   SpaceGroup_ctor (1 / 1000) [inversion_at_origin, SymmetryOperator_default] ''P-1'' = Inr Pbar1 \<and>
   closed_under_composition (1 / 1000) [inversion_at_origin, SymmetryOperator_default] \<and>
   closed_under_composition (1 / 1000) (symmetry_operators Pbar1)"
  using constructor_checks_closure [of "1 / 1000" "[half_shift]" "''bad''"]
        constructor_checks_closure [of "1 / 1000" "[inversion_at_origin, SymmetryOperator_default]" "''P-1''"]
        half_shift_not_closed SpaceGroup_ctor_Pbar1
  unfolding closed_under_composition_def by blast


section \<open>Results on the identity at index 0\<close>

subsection \<open>A decomposition that succeeds has seen an identity\<close>

lemma classify_operators_centring:
  "classify_operators tol ops (cvs0, itvs0, h0) = Inr (cvs, itvs, h) \<Longrightarrow> v \<in> set cvs \<Longrightarrow>
     v \<in> set cvs0 \<or>
     (\<exists>s \<in> set ops. nearly_equal_matrix tol (rotation s) identity_matrix \<and> translation s = v)"
proof (induction ops arbitrary: cvs0 itvs0 h0)
  case Nil
  then show ?case by simp
next
  case (Cons s ss)
  show ?case
  proof (cases "nearly_equal tol (determinant (rotation s)) 1")
    case proper: True
    show ?thesis
    proof (cases "nearly_equal_matrix tol (rotation s) identity_matrix")
      case True
      with proper Cons.prems have
        "classify_operators tol ss (cvs0 @ [translation s], itvs0, h0) = Inr (cvs, itvs, h)"
        by simp
      from Cons.IH [OF this Cons.prems(2)] True show ?thesis by auto
    next
      case False
      with proper Cons.prems have
        "classify_operators tol ss (cvs0, itvs0, h0) = Inr (cvs, itvs, h)"
        by simp
      from Cons.IH [OF this Cons.prems(2)] show ?thesis by auto
    qed
  next
    case not_proper: False
    show ?thesis
    proof (cases "nearly_equal tol (determinant (rotation s)) (- 1)")
      case improper: True
      show ?thesis
      proof (cases "nearly_equal_matrix tol (rotation s) (diagonal_matrix (- 1))")
        case True
        with not_proper improper Cons.prems have
          "classify_operators tol ss (cvs0, itvs0 @ [translation s], True) = Inr (cvs, itvs, h)"
          by simp
        from Cons.IH [OF this Cons.prems(2)] show ?thesis by auto
      next
        case False
        with not_proper improper Cons.prems have
          "classify_operators tol ss (cvs0, itvs0, h0) = Inr (cvs, itvs, h)"
          by simp
        from Cons.IH [OF this Cons.prems(2)] show ?thesis by auto
      qed
    next
      case False
      with not_proper Cons.prems show ?thesis by simp
    qed
  qed
qed

lemma remove_zero_vector_found:
  "remove_zero_vector tol vs (f0, c0) = (True, c) \<Longrightarrow>
     f0 \<or> (\<exists>v \<in> set vs. nearly_equal_vector tol v 0)"
  by (induction vs arbitrary: f0 c0) (auto split: if_splits)

lemma decompose_identity:
  assumes "decompose tol sg = Inr sg'"
  shows "\<exists>s \<in> set (symmetry_operators sg). is_identity tol s"
proof -
  from assms obtain cvs itvs h where
    cl: "classify_operators tol (symmetry_operators sg) ([], [], False) = Inr (cvs, itvs, h)"
    by (auto simp: decompose_def split: sum.splits)
  from assms cl obtain c where "remove_zero_vector tol cvs (False, []) = (True, c)"
    by (auto simp: decompose_def split: prod.splits if_splits)
  from remove_zero_vector_found [OF this] obtain v where
    v: "v \<in> set cvs" "nearly_equal_vector tol v 0" by auto
  from classify_operators_centring [OF cl v(1)] obtain s where
    "s \<in> set (symmetry_operators sg)" "nearly_equal_matrix tol (rotation s) identity_matrix"
    "translation s = v" by auto
  with v(2) show ?thesis by (auto simp: is_identity_def)
qed

lemma decompose_nonempty:
  "decompose tol sg = Inr sg' \<Longrightarrow> symmetry_operators sg' \<noteq> []"
  using decompose_identity [of tol sg sg'] decompose_symmetry_operators [of tol sg sg'] by auto

subsection \<open>The swap in the constructor\<close>

lemma swap_identity_to_front_head:
  assumes "drop i ops = ss" and "0 < i"
  shows "(\<exists>s \<in> set ss. is_identity tol s) \<Longrightarrow> is_identity tol (swap_identity_to_front tol ops ss i ! 0)"
    and "(\<forall>s \<in> set ss. \<not> is_identity tol s) \<Longrightarrow> swap_identity_to_front tol ops ss i = ops"
  using assms
proof (induction ss arbitrary: i)
  case Nil
  { case 1 then show ?case by simp }
  { case 2 then show ?case by simp }
next
  case (Cons s ss)
  { case 1
    have at: "ops ! i = s" using "1.prems"(2) by (simp add: nth_via_drop)
    have rest: "drop (Suc i) ops = ss" using "1.prems"(2) by (metis drop_Suc list.sel(3) tl_drop)
    have len: "i < length ops" using "1.prems"(2) by (metis drop_all list.distinct(1) not_le)
    show ?case
    proof (cases "is_identity tol s")
      case True
      moreover from len have "0 < length ops" by auto
      ultimately show ?thesis using at len "1.prems"(3) by simp
    next
      case False
      with "1.prems"(1) have "\<exists>s \<in> set ss. is_identity tol s" by simp
      from Cons.IH(1) [OF this rest] False show ?thesis by simp
    qed }
  { case 2
    have rest: "drop (Suc i) ops = ss" using "2.prems"(2) by (metis drop_Suc list.sel(3) tl_drop)
    from "2.prems"(1) have no: "\<not> is_identity tol s" "\<forall>s \<in> set ss. \<not> is_identity tol s" by simp_all
    from Cons.IH(2) [OF no(2) rest] no(1) show ?case by simp }
qed

lemma SpaceGroup_ctor_identity_first:
  assumes "SpaceGroup_ctor tol ops nm = Inr sg"
  shows "symmetry_operators sg \<noteq> [] \<and> is_identity tol (symmetry_operators sg ! 0)"
proof -
  from assms have c: "closed_under_composition tol ops"
    by (rule SpaceGroup_ctor_operators(1))
  from assms c obtain s0 rest where ops: "ops = s0 # rest"
    by (cases ops) (auto simp: SpaceGroup_ctor_def check_if_closed_cases)
  let ?l = "if \<not> is_identity tol s0 then swap_identity_to_front tol ops rest 1 else ops"
  from assms c ops obtain sg0 where
    d: "decompose tol (SpaceGroup_blank\<lparr>symmetry_operators := ?l\<rparr>) = Inr sg0" and sg: "sg = sg0\<lparr>name := nm\<rparr>"
    by (auto simp: SpaceGroup_ctor_def check_if_closed_cases split: sum.splits)
  have l: "symmetry_operators sg = ?l"
    using decompose_symmetry_operators [OF d] sg by simp
  have ne: "symmetry_operators sg \<noteq> []"
    using decompose_nonempty [OF d] sg by simp
  from decompose_identity [OF d] have ex: "\<exists>s \<in> set ?l. is_identity tol s" by simp
  have dr: "drop 1 ops = rest" by (simp add: ops)
  have "is_identity tol (?l ! 0)"
  proof (cases "is_identity tol s0")
    case True
    then show ?thesis by (simp add: ops)
  next
    case False
    show ?thesis
    proof (cases "\<exists>s \<in> set rest. is_identity tol s")
      case True
      from swap_identity_to_front_head(1) [OF dr _ True] False show ?thesis by simp
    next
      case none: False
      then have "swap_identity_to_front tol ops rest 1 = ops"
        using swap_identity_to_front_head(2) [OF dr] by simp
      with ex False none show ?thesis by (simp add: ops)
    qed
  qed
  with l ne show ?thesis by simp
qed

subsection \<open>The mutating operations\<close>

lemma remove_duplicates_loop_head:
  "new \<noteq> [] \<Longrightarrow> remove_duplicates_loop tol ss new \<noteq> [] \<and> remove_duplicates_loop tol ss new ! 0 = new ! 0"
  by (induction ss arbitrary: new) (simp_all add: nth_append)

lemma remove_duplicate_symmetry_operators_head:
  assumes "remove_duplicate_symmetry_operators tol sg = Inr sg'"
  shows "symmetry_operators sg' \<noteq> [] \<and> symmetry_operators sg' ! 0 = symmetry_operators sg ! 0"
proof -
  from assms obtain s0 rest where l: "symmetry_operators sg = s0 # rest"
    by (cases "symmetry_operators sg") (auto simp: remove_duplicate_symmetry_operators_def)
  with assms have "decompose tol (sg\<lparr>symmetry_operators := remove_duplicates_loop tol rest [s0]\<rparr>) = Inr sg'"
    by (simp add: remove_duplicate_symmetry_operators_def)
  from decompose_symmetry_operators [OF this]
  have "symmetry_operators sg' = remove_duplicates_loop tol rest [s0]" by simp
  with remove_duplicates_loop_head [of "[s0]" tol rest] l show ?thesis by simp
qed

lemma add_inversion_at_origin_head:
  assumes "add_inversion_at_origin tol sg = Inr sg'"
  shows "symmetry_operators sg' ! 0 = symmetry_operators sg ! 0"
proof (cases "has_inversion_at_origin sg")
  case True
  with assms show ?thesis by (simp add: add_inversion_at_origin_def)
next
  case False
  let ?l = "concat (map (\<lambda>s. [s, op_times \<lparr>rotation = diagonal_matrix (- 1), translation = 0\<rparr> s])
                        (symmetry_operators sg))"
  from False assms have d: "decompose tol (sg\<lparr>symmetry_operators := ?l\<rparr>) = Inr sg'"
    by (simp add: add_inversion_at_origin_def)
  from decompose_symmetry_operators [OF d] have l: "symmetry_operators sg' = ?l" by simp
  from decompose_nonempty [OF d] l have "symmetry_operators sg \<noteq> []" by auto
  then obtain s0 rest where "symmetry_operators sg = s0 # rest"
    by (cases "symmetry_operators sg") auto
  with l show ?thesis by simp
qed

lemma mat_mul_identity: "mat_mul m identity_matrix = m"
  by (cases m) (simp add: mat_mul_def identity_matrix_def)

lemma mat_mul_adjugate: "mat_mul m (adjugate m) = diagonal_matrix (determinant m)"
  by (cases m) (simp add: mat_mul_def adjugate_def diagonal_matrix_def determinant_def algebra_simps)

lemma mat_mul_scalar_times: "mat_mul m (scalar_times c a) = scalar_times c (mat_mul m a)"
  by (cases m; cases a) (simp add: mat_mul_def scalar_times_def algebra_simps)

lemma mat_mul_invert: "determinant m \<noteq> 0 \<Longrightarrow> mat_mul m (invert m) = identity_matrix"
  by (simp only: invert_def mat_mul_scalar_times mat_mul_adjugate)
     (simp add: scalar_times_def diagonal_matrix_def identity_matrix_def)

lemma mat_vec_zero: "mat_vec m (Vector3D 0 0 0) = Vector3D 0 0 0"
  by (simp add: mat_vec_def)

lemma mat_vec_adjugate:
  "mat_vec m (mat_vec (adjugate m) v) =
     Vector3D (determinant m * vx v) (determinant m * vy v) (determinant m * vz v)"
  by (cases m; cases v) (simp add: adjugate_def mat_vec_def determinant_def algebra_simps)

lemma mat_vec_scalar_times:
  "mat_vec m (mat_vec (scalar_times c a) v) =
     Vector3D (c * vx (mat_vec m (mat_vec a v))) (c * vy (mat_vec m (mat_vec a v)))
              (c * vz (mat_vec m (mat_vec a v)))"
  by (cases m; cases a; cases v) (simp add: mat_vec_def scalar_times_def algebra_simps)

lemma mat_vec_invert:
  "determinant m \<noteq> 0 \<Longrightarrow> mat_vec m (mat_vec (invert m) v) = v"
  by (cases v) (simp add: invert_def mat_vec_scalar_times mat_vec_adjugate)

lemma mat_vec_uminus: "mat_vec m (- w) = - mat_vec m w"
  by (cases w) (simp add: mat_vec_def uminus_Vector3D_def)

lemma conjugate_identity:
  assumes "determinant (rotation s) \<noteq> 0"
  shows "op_times (op_times s SymmetryOperator_default) (op_invert s) = SymmetryOperator_default"
proof -
  have r: "mat_mul (mat_mul (rotation s) identity_matrix) (invert (rotation s)) = identity_matrix"
    using assms by (simp add: mat_mul_identity mat_mul_invert)
  have "mat_vec (rotation s) (- mat_vec (invert (rotation s)) (translation s)) = - translation s"
    using assms by (simp add: mat_vec_uminus mat_vec_invert)
  then have t: "mat_vec (rotation s) (- mat_vec (invert (rotation s)) (translation s))
                  + (Vector3D 0 0 0 + translation s) = Vector3D 0 0 0"
    by (cases "translation s") (simp add: uminus_Vector3D_def plus_Vector3D_def)
  show ?thesis
    using r t
    by (simp add: op_times_def op_invert_def SymmetryOperator_default_def mat_mul_identity
          zero_Vector3D_def mat_vec_zero)
qed

lemma apply_similarity_transformation_head:
  assumes "apply_similarity_transformation tol s sg = Inr sg'"
  shows "symmetry_operators sg' \<noteq> [] \<and>
         symmetry_operators sg' ! 0 =
           op_times (op_times s (symmetry_operators sg ! 0)) (op_invert s)"
proof -
  let ?l = "map (\<lambda>x. op_times (op_times s x) (op_invert s)) (symmetry_operators sg)"
  from assms have d: "decompose tol (sg\<lparr>symmetry_operators := ?l\<rparr>) = Inr sg'"
    by (simp add: apply_similarity_transformation_def)
  from decompose_symmetry_operators [OF d] have l: "symmetry_operators sg' = ?l" by simp
  from decompose_nonempty [OF d] l show ?thesis by (auto simp: nth_map)
qed


subsection \<open>The claim and its limit\<close>

text \<open>
  Conjugation by the change of basis \<open>shear\<close> takes an operator that is the identity
  within the tolerance 1/1000 to one that is not.
\<close>

lemma SpaceGroup_ctor_off_identity:
  "SpaceGroup_ctor (1 / 1000) [off_identity (1 / 2000), SymmetryOperator_default] ''X'' =
     Inr \<lparr>symmetry_operators = [off_identity (1 / 2000), SymmetryOperator_default],
          representative_symmetry_operators = [off_identity (1 / 2000)],
          centring_vectors = [], has_inversion = False, has_inversion_at_origin = False,
          position_of_inversion = 0, name = ''X''\<rparr>"
  by (simp add: SpaceGroup_ctor_def check_if_closed_def decompose_def SpaceGroup_blank_def operator_unfold)

lemma apply_similarity_transformation_off_identity:
  "apply_similarity_transformation (1 / 1000) shear
     \<lparr>symmetry_operators = [off_identity (1 / 2000), SymmetryOperator_default],
      representative_symmetry_operators = [off_identity (1 / 2000)],
      centring_vectors = [], has_inversion = False, has_inversion_at_origin = False,
      position_of_inversion = 0, name = ''X''\<rparr> =
     Inr \<lparr>symmetry_operators =
            [\<lparr>rotation = Matrix3D (999 / 1000) (1 / 2000) 0 (- (1 / 500)) (1001 / 1000) 0 0 0 1,
              translation = Vector3D 0 0 0\<rparr>,
             \<lparr>rotation = Matrix3D 1 0 0 0 1 0 0 0 1, translation = Vector3D 0 0 0\<rparr>],
          representative_symmetry_operators =
            [\<lparr>rotation = Matrix3D (999 / 1000) (1 / 2000) 0 (- (1 / 500)) (1001 / 1000) 0 0 0 1,
              translation = Vector3D 0 0 0\<rparr>,
             \<lparr>rotation = Matrix3D 1 0 0 0 1 0 0 0 1, translation = Vector3D 0 0 0\<rparr>],
          centring_vectors = [], has_inversion = False, has_inversion_at_origin = False,
          position_of_inversion = 0, name = ''X''\<rparr>"
  by (simp add: apply_similarity_transformation_def decompose_def operator_unfold)

text \<open>
  C6 as stated fails: the list of \<open>off_identity (1/2000)\<close> and the identity is accepted
  by the constructor with tolerance 1/1000, and after
  \<open>apply_similarity_transformation\<close> with \<open>shear\<close> the operator at index 0 is not
  the identity within the tolerance.
\<close>

theorem identity_first_counterexample:
  "\<exists>sg sg'. SpaceGroup_ctor (1 / 1000) [off_identity (1 / 2000), SymmetryOperator_default] ''X'' = Inr sg \<and>
     apply_similarity_transformation (1 / 1000) shear sg = Inr sg' \<and>
     \<not> is_identity (1 / 1000) (symmetry_operators sg' ! 0)"
proof -
  let ?sg = "\<lparr>symmetry_operators = [off_identity (1 / 2000), SymmetryOperator_default],
      representative_symmetry_operators = [off_identity (1 / 2000)],
      centring_vectors = [], has_inversion = False, has_inversion_at_origin = False,
      position_of_inversion = 0, name = ''X''\<rparr>"
  let ?sg' = "\<lparr>symmetry_operators =
            [\<lparr>rotation = Matrix3D (999 / 1000) (1 / 2000) 0 (- (1 / 500)) (1001 / 1000) 0 0 0 1,
              translation = Vector3D 0 0 0\<rparr>,
             \<lparr>rotation = Matrix3D 1 0 0 0 1 0 0 0 1, translation = Vector3D 0 0 0\<rparr>],
          representative_symmetry_operators =
            [\<lparr>rotation = Matrix3D (999 / 1000) (1 / 2000) 0 (- (1 / 500)) (1001 / 1000) 0 0 0 1,
              translation = Vector3D 0 0 0\<rparr>,
             \<lparr>rotation = Matrix3D 1 0 0 0 1 0 0 0 1, translation = Vector3D 0 0 0\<rparr>],
          centring_vectors = [], has_inversion = False, has_inversion_at_origin = False,
          position_of_inversion = 0, name = ''X''\<rparr>"
  have "\<not> is_identity (1 / 1000) (symmetry_operators ?sg' ! 0)"
    by (simp add: operator_unfold)
  with SpaceGroup_ctor_off_identity apply_similarity_transformation_off_identity
  show ?thesis by blast
qed

text \<open>
  C6, amended: for every operator list that the constructor accepts, the operator at index
  0 of the group is the identity within the tolerance.
  \<open>remove_duplicate_symmetry_operators\<close> and \<open>add_inversion_at_origin\<close> leave the
  operator at index 0 as it is.  \<open>apply_similarity_transformation\<close> with \<open>S\<close> puts
  the conjugate of operator 0 by \<open>S\<close> at index 0, which is the identity when operator 0
  is exactly the identity and the rotation of \<open>S\<close> is invertible.
\<close>

theorem identity_stays_first:
  "(\<forall>sg. SpaceGroup_ctor tol ops nm = Inr sg \<longrightarrow>
      symmetry_operators sg \<noteq> [] \<and> is_identity tol (symmetry_operators sg ! 0)) \<and>
   (\<forall>sg'. remove_duplicate_symmetry_operators tol sg0 = Inr sg' \<longrightarrow>
      symmetry_operators sg' \<noteq> [] \<and> symmetry_operators sg' ! 0 = symmetry_operators sg0 ! 0) \<and>
   (\<forall>sg'. add_inversion_at_origin tol sg0 = Inr sg' \<longrightarrow>
      symmetry_operators sg' ! 0 = symmetry_operators sg0 ! 0) \<and>
   (\<forall>sg'. apply_similarity_transformation tol S sg0 = Inr sg' \<longrightarrow>
      symmetry_operators sg' \<noteq> [] \<and>
      symmetry_operators sg' ! 0 = op_times (op_times S (symmetry_operators sg0 ! 0)) (op_invert S) \<and>
      (symmetry_operators sg0 ! 0 = SymmetryOperator_default \<longrightarrow> determinant (rotation S) \<noteq> 0 \<longrightarrow>
         symmetry_operators sg' ! 0 = SymmetryOperator_default))"
  using SpaceGroup_ctor_identity_first [of tol ops nm]
        remove_duplicate_symmetry_operators_head [of tol sg0]
        add_inversion_at_origin_head [of tol sg0]
        apply_similarity_transformation_head [of tol S sg0]
        conjugate_identity [of S]
  by auto

lemma remove_duplicate_symmetry_operators_P1:
  "remove_duplicate_symmetry_operators (1 / 1000) P1 = Inr P1"
  by (simp add: remove_duplicate_symmetry_operators_def decompose_def P1_def operator_unfold)

lemma add_inversion_at_origin_P1:
  "add_inversion_at_origin (1 / 1000) P1 = Inr (Pbar1\<lparr>name := ''P1''\<rparr>)"
  by (simp add: add_inversion_at_origin_def decompose_def P1_def Pbar1_def operator_unfold)

lemma apply_similarity_transformation_P1:
  "apply_similarity_transformation (1 / 1000) shear P1 = Inr P1"
  by (simp add: apply_similarity_transformation_def decompose_def P1_def operator_unfold)

theorem identity_stays_first_witness:
  "SpaceGroup_ctor (1 / 1000) [inversion_at_origin, SymmetryOperator_default] ''P-1'' = Inr Pbar1 \<and>
   is_identity (1 / 1000) (symmetry_operators Pbar1 ! 0) \<and>
   remove_duplicate_symmetry_operators (1 / 1000) P1 = Inr P1 \<and>
   add_inversion_at_origin (1 / 1000) P1 = Inr (Pbar1\<lparr>name := ''P1''\<rparr>) \<and>
   symmetry_operators (Pbar1\<lparr>name := ''P1''\<rparr>) ! 0 = symmetry_operators P1 ! 0 \<and>
   symmetry_operators P1 ! 0 = SymmetryOperator_default \<and>
   determinant (rotation shear) \<noteq> 0 \<and>
   apply_similarity_transformation (1 / 1000) shear P1 = Inr P1"
proof -
  have d: "determinant (rotation shear) \<noteq> 0" by (simp add: shear_def determinant_def)
  have p: "symmetry_operators P1 ! 0 = SymmetryOperator_default" by (simp add: P1_def)
  show ?thesis
    using identity_stays_first [of "1 / 1000" "[inversion_at_origin, SymmetryOperator_default]" "''P-1''" P1 shear]
          SpaceGroup_ctor_Pbar1 remove_duplicate_symmetry_operators_P1
          add_inversion_at_origin_P1 apply_similarity_transformation_P1 d p
    by auto
qed


section \<open>Results on the representative operators\<close>

subsection \<open>The comparison up to sign\<close>

lemma nearly_equal_sym: "nearly_equal tol x y = nearly_equal tol y x"
  by (simp add: nearly_equal_def abs_minus_commute)

lemma nearly_equal_neg: "nearly_equal tol x (- 1 * y) = nearly_equal tol y (- 1 * x)"
proof -
  have "\<bar>- 1 * y - x\<bar> = \<bar>- 1 * x - y\<bar>" by linarith
  then show ?thesis by (simp only: nearly_equal_def)
qed

lemma nearly_equal_matrix_sym: "nearly_equal_matrix tol a b = nearly_equal_matrix tol b a"
  unfolding nearly_equal_matrix_def
  by (subst nearly_equal_sym [of tol "m00 a"], subst nearly_equal_sym [of tol "m01 a"],
      subst nearly_equal_sym [of tol "m02 a"], subst nearly_equal_sym [of tol "m10 a"],
      subst nearly_equal_sym [of tol "m11 a"], subst nearly_equal_sym [of tol "m12 a"],
      subst nearly_equal_sym [of tol "m20 a"], subst nearly_equal_sym [of tol "m21 a"],
      subst nearly_equal_sym [of tol "m22 a"]) (rule refl)

lemma nearly_equal_matrix_neg:
  "nearly_equal_matrix tol a (scalar_times (- 1) b) = nearly_equal_matrix tol b (scalar_times (- 1) a)"
  unfolding nearly_equal_matrix_def scalar_times_def Matrix3D.sel
  by (subst nearly_equal_neg [of tol "m00 a"], subst nearly_equal_neg [of tol "m01 a"],
      subst nearly_equal_neg [of tol "m02 a"], subst nearly_equal_neg [of tol "m10 a"],
      subst nearly_equal_neg [of tol "m11 a"], subst nearly_equal_neg [of tol "m12 a"],
      subst nearly_equal_neg [of tol "m20 a"], subst nearly_equal_neg [of tol "m21 a"],
      subst nearly_equal_neg [of tol "m22 a"]) (rule refl)

lemma same_rotation_sym:
  "same_rotation_up_to_sign tol a b \<Longrightarrow> same_rotation_up_to_sign tol b a"
  unfolding same_rotation_up_to_sign_def
  using nearly_equal_matrix_sym [of tol "rotation a" "rotation b"]
        nearly_equal_matrix_neg [of tol "rotation a" "rotation b"]
  by blast

lemma same_rotation_refl: "0 < tol \<Longrightarrow> same_rotation_up_to_sign tol a a"
  by (simp add: same_rotation_up_to_sign_def nearly_equal_matrix_def nearly_equal_def)

lemma representative_found_iff:
  "representative_found tol (rotation s) reps \<longleftrightarrow>
     (\<exists>r \<in> set reps. same_rotation_up_to_sign tol s r)"
  by (induction reps) (auto simp: same_rotation_up_to_sign_def)

subsection \<open>The scan that collects the representatives\<close>

lemma representatives_append:
  "\<exists>new. representatives tol xs reps = reps @ new \<and> subseq new xs"
proof (induction xs arbitrary: reps)
  case Nil
  then show ?case by simp
next
  case (Cons x xs)
  show ?case
  proof (cases "representative_found tol (rotation x) reps")
    case True
    from Cons.IH [of reps] obtain new where
      "representatives tol xs reps = reps @ new" "subseq new xs" by blast
    with True show ?thesis by (auto intro: subseq_Cons')
  next
    case False
    from Cons.IH [of "reps @ [x]"] obtain new where
      "representatives tol xs (reps @ [x]) = (reps @ [x]) @ new" "subseq new xs" by blast
    with False have "representatives tol (x # xs) reps = reps @ (x # new) \<and> subseq (x # new) (x # xs)"
      by simp
    then show ?thesis by blast
  qed
qed

lemma representatives_cover:
  assumes "0 < tol"
  shows "s \<in> set xs \<union> set reps \<Longrightarrow> \<exists>r \<in> set (representatives tol xs reps). same_rotation_up_to_sign tol s r"
proof (induction xs arbitrary: reps)
  case Nil
  then show ?case using same_rotation_refl [OF assms] by auto
next
  case (Cons x xs)
  let ?reps' = "if representative_found tol (rotation x) reps then reps else reps @ [x]"
  have step: "representatives tol (x # xs) reps = representatives tol xs ?reps'" by simp
  from representatives_append [of tol xs ?reps'] have sub: "set ?reps' \<subseteq> set (representatives tol xs ?reps')"
    by auto
  show ?case
  proof (cases "s \<in> set xs \<union> set ?reps'")
    case True
    from Cons.IH [OF this] step show ?thesis by simp
  next
    case False
    with Cons.prems have sx: "s = x" and found: "representative_found tol (rotation x) reps"
      by (auto split: if_splits)
    from found obtain r where "r \<in> set reps" "same_rotation_up_to_sign tol x r"
      by (auto simp: representative_found_iff)
    with sub found sx step show ?thesis by auto
  qed
qed

lemma representatives_apart:
  "sorted_wrt (\<lambda>a b. \<not> same_rotation_up_to_sign tol b a) reps \<Longrightarrow>
   sorted_wrt (\<lambda>a b. \<not> same_rotation_up_to_sign tol b a) (representatives tol xs reps)"
proof (induction xs arbitrary: reps)
  case Nil
  then show ?case by simp
next
  case (Cons x xs)
  show ?case
  proof (cases "representative_found tol (rotation x) reps")
    case True
    with Cons show ?thesis by simp
  next
    case False
    then have "\<forall>r \<in> set reps. \<not> same_rotation_up_to_sign tol x r"
      by (simp add: representative_found_iff)
    with Cons.prems have "sorted_wrt (\<lambda>a b. \<not> same_rotation_up_to_sign tol b a) (reps @ [x])"
      by (simp add: sorted_wrt_append)
    from Cons.IH [OF this] False show ?thesis by simp
  qed
qed

text \<open>
  Where the comparison is transitive on a set that holds the operators at hand, every new
  representative is the first operator of the scanned list with its rotation up to sign,
  and has nothing in common with the representatives from before the scan.
\<close>

lemma representatives_earliest:
  assumes trans: "\<forall>a \<in> A. \<forall>b \<in> A. \<forall>c \<in> A.
      same_rotation_up_to_sign tol a b \<longrightarrow> same_rotation_up_to_sign tol b c \<longrightarrow> same_rotation_up_to_sign tol a c"
  shows "set xs \<union> set reps \<subseteq> A \<Longrightarrow> representatives tol xs reps = reps @ new \<Longrightarrow> r \<in> set new \<Longrightarrow>
     (\<exists>i < length xs. xs ! i = r \<and> (\<forall>k < i. \<not> same_rotation_up_to_sign tol (xs ! k) r)) \<and>
     (\<forall>q \<in> set reps. \<not> same_rotation_up_to_sign tol r q)"
proof (induction xs arbitrary: reps new)
  case Nil
  then show ?case by simp
next
  case (Cons x xs)
  show ?case
  proof (cases "representative_found tol (rotation x) reps")
    case True
    then obtain q0 where q0: "q0 \<in> set reps" "same_rotation_up_to_sign tol x q0"
      by (auto simp: representative_found_iff)
    from True Cons.prems(2) have eq: "representatives tol xs reps = reps @ new" by simp
    from Cons.prems(1) have sub: "set xs \<union> set reps \<subseteq> A" by auto
    from Cons.IH [OF sub eq Cons.prems(3)] obtain i where
      i: "i < length xs" "xs ! i = r" "\<forall>k < i. \<not> same_rotation_up_to_sign tol (xs ! k) r"
      and apart: "\<forall>q \<in> set reps. \<not> same_rotation_up_to_sign tol r q" by blast
    have rA: "r \<in> A" using i(1,2) sub by (metis UnCI nth_mem subsetD)
    have xA: "x \<in> A" and qA: "q0 \<in> A" using Cons.prems(1) q0(1) by auto
    have nx: "\<not> same_rotation_up_to_sign tol x r"
    proof
      assume "same_rotation_up_to_sign tol x r"
      then have "same_rotation_up_to_sign tol r x" by (rule same_rotation_sym)
      with q0(2) trans rA xA qA have "same_rotation_up_to_sign tol r q0" by blast
      with apart q0(1) show False by blast
    qed
    have "\<forall>k < Suc i. \<not> same_rotation_up_to_sign tol ((x # xs) ! k) r"
    proof (intro allI impI)
      fix k assume "k < Suc i"
      then show "\<not> same_rotation_up_to_sign tol ((x # xs) ! k) r"
        using nx i(3) by (cases k) auto
    qed
    with i(1,2) have "\<exists>j < length (x # xs). (x # xs) ! j = r \<and>
        (\<forall>k < j. \<not> same_rotation_up_to_sign tol ((x # xs) ! k) r)"
      by (intro exI [of _ "Suc i"]) simp
    with apart show ?thesis by blast
  next
    case False
    then have nf: "\<forall>q \<in> set reps. \<not> same_rotation_up_to_sign tol x q"
      by (simp add: representative_found_iff)
    from representatives_append [of tol xs "reps @ [x]"] obtain new' where
      new': "representatives tol xs (reps @ [x]) = (reps @ [x]) @ new'" by blast
    with False Cons.prems(2) have new: "new = x # new'" by simp
    show ?thesis
    proof (cases "r \<in> set new'")
      case True
      from Cons.prems(1) have sub: "set xs \<union> set (reps @ [x]) \<subseteq> A" by auto
      from Cons.IH [OF sub new' True] obtain i where
        i: "i < length xs" "xs ! i = r" "\<forall>k < i. \<not> same_rotation_up_to_sign tol (xs ! k) r"
        and apart: "\<forall>q \<in> set (reps @ [x]). \<not> same_rotation_up_to_sign tol r q" by blast
      from apart have "\<not> same_rotation_up_to_sign tol r x" by simp
      then have nx: "\<not> same_rotation_up_to_sign tol x r" using same_rotation_sym by blast
      have "\<forall>k < Suc i. \<not> same_rotation_up_to_sign tol ((x # xs) ! k) r"
      proof (intro allI impI)
        fix k assume "k < Suc i"
        then show "\<not> same_rotation_up_to_sign tol ((x # xs) ! k) r"
          using nx i(3) by (cases k) auto
      qed
      with i(1,2) have "\<exists>j < length (x # xs). (x # xs) ! j = r \<and>
          (\<forall>k < j. \<not> same_rotation_up_to_sign tol ((x # xs) ! k) r)"
        by (intro exI [of _ "Suc i"]) simp
      with apart show ?thesis by simp
    next
      case False
      with Cons.prems(3) new have rx: "r = x" by simp
      have "\<exists>j < length (x # xs). (x # xs) ! j = r \<and>
          (\<forall>k < j. \<not> same_rotation_up_to_sign tol ((x # xs) ! k) r)"
        using rx by (intro exI [of _ 0]) simp
      with nf rx show ?thesis by simp
    qed
  qed
qed

lemma decompose_representatives:
  "decompose tol sg = Inr sg' \<Longrightarrow>
     representative_symmetry_operators sg' = representatives tol (symmetry_operators sg) []"
  by (auto simp: decompose_def split: sum.splits prod.splits if_splits)

lemma classify_operators_tolerance:
  "classify_operators tol (s # ss) acc = Inr res \<Longrightarrow> 0 < tol"
  by (cases acc) (auto simp: nearly_equal_def split: if_splits)

lemma decompose_tolerance:
  assumes "decompose tol sg = Inr sg'"
  shows "0 < tol"
proof -
  from decompose_nonempty [OF assms] decompose_symmetry_operators [OF assms]
  obtain s ss where l: "symmetry_operators sg = s # ss"
    by (cases "symmetry_operators sg") auto
  from assms obtain res where "classify_operators tol (symmetry_operators sg) ([], [], False) = Inr res"
    by (auto simp: decompose_def split: sum.splits)
  with l show ?thesis using classify_operators_tolerance by metis
qed


subsection \<open>The claim and its limit\<close>

lemma representatives_subset: "set (representatives tol xs reps) \<subseteq> set xs \<union> set reps"
proof -
  from representatives_append [of tol xs reps] obtain new where
    n: "representatives tol xs reps = reps @ new" "subseq new xs" by blast
  have "set new \<subseteq> set xs" using list_emb_set [OF n(2)] by auto
  with n(1) show ?thesis by auto
qed

lemma decompose_noisy_group:
  "decompose (1 / 1000) noisy_group =
     Inr (noisy_group\<lparr>representative_symmetry_operators :=
                         [SymmetryOperator_default, off_identity (3 / 2000)]\<rparr>)"
  by (simp add: decompose_def noisy_group_def SpaceGroup_blank_def operator_unfold)

text \<open>
  C7 as stated fails: with tolerance 1/1000 the operator at index 1 of \<open>noisy_group\<close>
  is equal up to sign to both representatives, and the second representative, which is
  the operator at index 2, is not the earliest operator with its rotation up to sign,
  because the operator at index 1 has it too.
\<close>

theorem representatives_counterexample:
  "\<exists>sg'. decompose (1 / 1000) noisy_group = Inr sg' \<and>
     \<not> (\<exists>!j. j < length (representative_symmetry_operators sg') \<and>
            same_rotation_up_to_sign (1 / 1000) (symmetry_operators noisy_group ! 1)
              (representative_symmetry_operators sg' ! j)) \<and>
     representative_symmetry_operators sg' ! 1 = symmetry_operators noisy_group ! 2 \<and>
     representative_symmetry_operators sg' ! 1 \<noteq> symmetry_operators noisy_group ! 1 \<and>
     same_rotation_up_to_sign (1 / 1000) (symmetry_operators noisy_group ! 1)
       (representative_symmetry_operators sg' ! 1)"
proof -
  let ?reps = "[SymmetryOperator_default, off_identity (3 / 2000)]"
  let ?x = "off_identity (3 / 4000)"
  have s0: "same_rotation_up_to_sign (1 / 1000) ?x (?reps ! 0)"
    by (simp add: same_rotation_up_to_sign_def operator_unfold)
  have s1: "same_rotation_up_to_sign (1 / 1000) ?x (?reps ! 1)"
    by (simp add: same_rotation_up_to_sign_def operator_unfold)
  have "\<not> (\<exists>!j. j < length ?reps \<and> same_rotation_up_to_sign (1 / 1000) ?x (?reps ! j))"
  proof
    assume "\<exists>!j. j < length ?reps \<and> same_rotation_up_to_sign (1 / 1000) ?x (?reps ! j)"
    moreover have "0 < length ?reps \<and> same_rotation_up_to_sign (1 / 1000) ?x (?reps ! 0)"
      using s0 by simp
    moreover have "1 < length ?reps \<and> same_rotation_up_to_sign (1 / 1000) ?x (?reps ! 1)"
      using s1 by simp
    ultimately obtain j0 :: nat where "0 = j0" "1 = j0" by (elim ex1E) metis
    then show False by simp
  qed
  moreover have "off_identity (3 / 2000) \<noteq> off_identity (3 / 4000)"
    by (simp add: off_identity_def)
  ultimately show ?thesis
    using s1 by (intro exI [of _ "noisy_group\<lparr>representative_symmetry_operators := ?reps\<rparr>"])
      (simp add: decompose_noisy_group, simp add: noisy_group_def)
qed

text \<open>
  C7, amended: after \<open>decompose()\<close> the representatives are a subsequence of the operator
  list; the rotation of every operator is equal within the tolerance, up to sign, to the
  rotation of at least one representative; no representative is equal in that sense to an
  earlier representative.  Where this comparison is transitive on the operators of the
  list, every operator matches exactly one representative, and each representative is the
  earliest operator of the list with its rotation up to sign.
\<close>

theorem representatives_after_decompose:
  assumes "decompose tol sg = Inr sg'"
  shows "subseq (representative_symmetry_operators sg') (symmetry_operators sg) \<and>
     (\<forall>s \<in> set (symmetry_operators sg). \<exists>r \<in> set (representative_symmetry_operators sg').
        same_rotation_up_to_sign tol s r) \<and>
     (\<forall>j < length (representative_symmetry_operators sg'). \<forall>i < j.
        \<not> same_rotation_up_to_sign tol (representative_symmetry_operators sg' ! j)
                                       (representative_symmetry_operators sg' ! i)) \<and>
     (up_to_sign_transitive tol (symmetry_operators sg) \<longrightarrow>
        (\<forall>s \<in> set (symmetry_operators sg).
           \<exists>!j. j < length (representative_symmetry_operators sg') \<and>
                same_rotation_up_to_sign tol s (representative_symmetry_operators sg' ! j)) \<and>
        (\<forall>j < length (representative_symmetry_operators sg').
           \<exists>i < length (symmetry_operators sg).
             symmetry_operators sg ! i = representative_symmetry_operators sg' ! j \<and>
             (\<forall>k < i. \<not> same_rotation_up_to_sign tol (symmetry_operators sg ! k)
                                                     (representative_symmetry_operators sg' ! j))))"
proof -
  let ?ops = "symmetry_operators sg" and ?reps = "representative_symmetry_operators sg'"
  have reps: "?reps = representatives tol ?ops []" by (rule decompose_representatives [OF assms])
  have tol: "0 < tol" by (rule decompose_tolerance [OF assms])
  have sub: "subseq ?reps ?ops"
    using representatives_append [of tol ?ops "[]"] reps by auto
  have cover: "\<forall>s \<in> set ?ops. \<exists>r \<in> set ?reps. same_rotation_up_to_sign tol s r"
    using representatives_cover [OF tol, of _ ?ops "[]"] reps by simp
  have "sorted_wrt (\<lambda>a b. \<not> same_rotation_up_to_sign tol b a) ?reps"
    using representatives_apart [of tol "[]" ?ops] reps by simp
  then have apart: "\<forall>j < length ?reps. \<forall>i < j. \<not> same_rotation_up_to_sign tol (?reps ! j) (?reps ! i)"
    by (simp add: sorted_wrt_iff_nth_less)
  have inside: "set ?reps \<subseteq> set ?ops"
    using representatives_subset [of tol ?ops "[]"] reps by simp
  have cond: "(\<forall>s \<in> set ?ops. \<exists>!j. j < length ?reps \<and> same_rotation_up_to_sign tol s (?reps ! j)) \<and>
        (\<forall>j < length ?reps. \<exists>i < length ?ops. ?ops ! i = ?reps ! j \<and>
             (\<forall>k < i. \<not> same_rotation_up_to_sign tol (?ops ! k) (?reps ! j)))"
    if tr: "up_to_sign_transitive tol ?ops"
  proof (intro conjI ballI allI impI)
    fix s assume s: "s \<in> set ?ops"
    have trans3: "same_rotation_up_to_sign tol a c"
      if "a \<in> set ?ops" "b \<in> set ?ops" "c \<in> set ?ops"
         "same_rotation_up_to_sign tol a b" "same_rotation_up_to_sign tol b c" for a b c
      using tr that unfolding up_to_sign_transitive_def by blast
    from cover s obtain r where "r \<in> set ?reps" "same_rotation_up_to_sign tol s r" by blast
    then obtain j where j: "j < length ?reps" "same_rotation_up_to_sign tol s (?reps ! j)"
      by (auto simp: in_set_conv_nth)
    have "j' = j" if j': "j' < length ?reps" "same_rotation_up_to_sign tol s (?reps ! j')" for j'
    proof (rule ccontr)
      assume ne: "j' \<noteq> j"
      have mem: "?reps ! j \<in> set ?ops" "?reps ! j' \<in> set ?ops"
        using inside j(1) j'(1) by auto
      have a: "same_rotation_up_to_sign tol (?reps ! j) (?reps ! j')"
        by (rule trans3 [OF mem(1) s mem(2) same_rotation_sym [OF j(2)] j'(2)])
      have b: "same_rotation_up_to_sign tol (?reps ! j') (?reps ! j)"
        by (rule same_rotation_sym [OF a])
      from ne have "j < j' \<or> j' < j" by auto
      with apart j(1) j'(1) a b show False by blast
    qed
    with j show "\<exists>!j. j < length ?reps \<and> same_rotation_up_to_sign tol s (?reps ! j)" by blast
  next
    fix j assume j: "j < length ?reps"
    have tr': "\<forall>a \<in> set ?ops. \<forall>b \<in> set ?ops. \<forall>c \<in> set ?ops.
      same_rotation_up_to_sign tol a b \<longrightarrow> same_rotation_up_to_sign tol b c \<longrightarrow> same_rotation_up_to_sign tol a c"
      using tr unfolding up_to_sign_transitive_def .
    have "representatives tol ?ops [] = [] @ ?reps" using reps by simp
    from representatives_earliest [OF tr' _ this, of "?reps ! j"] j
    show "\<exists>i < length ?ops. ?ops ! i = ?reps ! j \<and>
             (\<forall>k < i. \<not> same_rotation_up_to_sign tol (?ops ! k) (?reps ! j))"
      by simp
  qed
  show ?thesis
    using cond by (intro conjI impI sub cover apart) simp_all
qed

lemma decompose_Pbar1: "decompose (1 / 1000) Pbar1 = Inr Pbar1"
  by (simp add: decompose_def Pbar1_def operator_unfold)

lemma Pbar1_transitive: "up_to_sign_transitive (1 / 1000) (symmetry_operators Pbar1)"
  by (simp add: up_to_sign_transitive_def same_rotation_up_to_sign_def Pbar1_def operator_unfold)

theorem representatives_after_decompose_witness:
  "decompose (1 / 1000) Pbar1 = Inr Pbar1 \<and>
   up_to_sign_transitive (1 / 1000) (symmetry_operators Pbar1) \<and>
   subseq (representative_symmetry_operators Pbar1) (symmetry_operators Pbar1) \<and>
   (\<exists>!j. j < length (representative_symmetry_operators Pbar1) \<and>
      same_rotation_up_to_sign (1 / 1000) inversion_at_origin
        (representative_symmetry_operators Pbar1 ! j)) \<and>
   (\<exists>i < length (symmetry_operators Pbar1).
      symmetry_operators Pbar1 ! i = representative_symmetry_operators Pbar1 ! 0)"
proof -
  have m: "inversion_at_origin \<in> set (symmetry_operators Pbar1)"
    and l: "0 < length (representative_symmetry_operators Pbar1)" by (simp_all add: Pbar1_def)
  show ?thesis
    using representatives_after_decompose [OF decompose_Pbar1] decompose_Pbar1 Pbar1_transitive m l
    by blast
qed


end
